theory Spec2Isabelle
  imports Complex_Main "HOL-Library.Sublist"
begin

section \<open>Data model\<close>

text \<open>
  Modelled from the spec: \<^verbatim>\<open>types.ts\<close> (\<^verbatim>\<open>DriveFile\<close>, \<^verbatim>\<open>Favorite\<close>) is imported by
  every source file but is not among them. The fields are the ones the code reads:
  \<^verbatim>\<open>id\<close>, \<^verbatim>\<open>name\<close>, \<^verbatim>\<open>thumbnailLink\<close>, \<^verbatim>\<open>mimeType\<close> of a file and \<^verbatim>\<open>id\<close>, \<^verbatim>\<open>name\<close> of
  a favorite. The field \<^verbatim>\<open>id\<close> is written \<open>file_id\<close> / \<open>fav_id\<close> (\<open>id\<close> is HOL's identity).
\<close>

record DriveFile =
  file_id :: string
  file_name :: string
  thumbnailLink :: string
  mimeType :: string

record Favorite =
  fav_id :: string
  fav_name :: string

text \<open>
  The shared document \<^verbatim>\<open>galleries/<folderId>\<close> is \<^verbatim>\<open>{ favorites: Favorite[] }\<close>; the code
  guards against a missing field with \<^verbatim>\<open>data.favorites || []\<close>, so the field is optional.
\<close>

record GalleryDoc =
  favorites :: "Favorite list option"

text \<open>
  The backing store as the code sees it: the documents of the collection
  \<^verbatim>\<open>galleries\<close>, keyed by folder id, and the snapshot listeners attached to them
  (listener id and document key).
\<close>

record Backend =
  documents :: "string \<rightharpoonup> GalleryDoc"
  listeners :: "(nat \<times> string) list"

text \<open>The handle \<^verbatim>\<open>db\<close> of the service module: \<open>None\<close> is JavaScript's \<^verbatim>\<open>undefined\<close>.\<close>

datatype Firestore = FirestoreHandle

datatype firestore_error = TransactionFailed

text \<open>What a call does on the backing store: the reads it makes and the writes it commits.\<close>

datatype remote_op = TxGet string | TxSet string GalleryDoc

section \<open>Favorites store (firebaseService)\<close>

subsection \<open>Module initialisation\<close>

text \<open>
  The module state: \<^verbatim>\<open>db\<close> and the exported flag \<^verbatim>\<open>isFirebaseConfigured\<close>. The
  \<^verbatim>\<open>try\<close> block throws when a configuration value contains the placeholder \<^verbatim>\<open>YOUR_\<close>
  (\<^verbatim>\<open>value.includes('YOUR_')\<close>) or when the client library's initialisation throws
  (\<open>sdkThrows\<close>); the \<^verbatim>\<open>catch\<close> only logs, so both variables keep their initial values.
  The configuration values (\<^verbatim>\<open>firebaseConfig.ts\<close>) are a parameter.
\<close>

record FirebaseService =
  db :: "Firestore option"
  isFirebaseConfigured :: bool

definition initFirebase :: "string list \<Rightarrow> bool \<Rightarrow> FirebaseService" where
  "initFirebase configValues sdkThrows =
     (if list_ex (\<lambda>value. sublist ''YOUR_'' value) configValues \<or> sdkThrows
      then \<lparr>db = None, isFirebaseConfigured = False\<rparr>
      else \<lparr>db = Some FirestoreHandle, isFirebaseConfigured = True\<rparr>)"

subsection \<open>The transaction body of \<^verbatim>\<open>toggleFavoriteInFirestore\<close>\<close>

text \<open>
  \<^verbatim>\<open>const currentFavorites = docSnap.exists() ? docSnap.data().favorites || [] : [];\<close>
  A snapshot of a document that does not exist is \<open>None\<close>.
\<close>

definition currentFavorites :: "GalleryDoc option \<Rightarrow> Favorite list" where
  "currentFavorites docSnap =
     (case docSnap of
        None \<Rightarrow> []
      | Some data \<Rightarrow> (case favorites data of None \<Rightarrow> [] | Some favs \<Rightarrow> favs))"

text \<open>\<^verbatim>\<open>currentFavorites.some(fav => fav.id === file.id)\<close>\<close>

definition isCurrentlyFavorite :: "Favorite list \<Rightarrow> DriveFile \<Rightarrow> bool" where
  "isCurrentlyFavorite favs file = list_ex (\<lambda>fav. fav_id fav = file_id file) favs"

text \<open>
  \<^verbatim>\<open>isCurrentlyFavorite ? currentFavorites.filter(fav => fav.id !== file.id)
                      : [...currentFavorites, { id: file.id, name: file.name }]\<close>
\<close>

definition newFavorites :: "Favorite list \<Rightarrow> DriveFile \<Rightarrow> Favorite list" where
  "newFavorites favs file =
     (if isCurrentlyFavorite favs file
      then filter (\<lambda>fav. fav_id fav \<noteq> file_id file) favs
      else favs @ [\<lparr>fav_id = file_id file, fav_name = file_name file\<rparr>])"

text \<open>
  The update function handed to \<^verbatim>\<open>runTransaction\<close>: from the snapshot read by
  \<^verbatim>\<open>transaction.get\<close> to the document written by \<^verbatim>\<open>transaction.set\<close>.
\<close>

definition updateFunction :: "DriveFile \<Rightarrow> GalleryDoc option \<Rightarrow> GalleryDoc" where
  "updateFunction file docSnap =
     \<lparr>favorites = Some (newFavorites (currentFavorites docSnap) file)\<rparr>"

subsection \<open>The store's transaction primitive\<close>

text \<open>
  Modelled from the spec: \<^verbatim>\<open>runTransaction\<close> belongs to the document store's client
  library, not to the repository. The spec describes it as a transactional
  read-modify-write that is retried on a write conflict until it commits or a retry
  budget is exhausted. The model: \<open>maxAttempts\<close> is the budget; \<open>concurrent\<close> lists the
  updates that other sessions commit to the same document, one during each successive
  attempt of this transaction. An attempt reads the document; when a concurrent update
  lands before the commit, the attempt is void and the next one starts from the new
  document; otherwise the update function's result is written.
\<close>

fun runTransaction ::
  "nat \<Rightarrow> (GalleryDoc option \<Rightarrow> GalleryDoc) list \<Rightarrow> string \<Rightarrow>
   (GalleryDoc option \<Rightarrow> GalleryDoc) \<Rightarrow> Backend \<Rightarrow>
   (firestore_error + unit) \<times> Backend \<times> remote_op list" where
  "runTransaction 0 concurrent key upd b = (Inl TransactionFailed, b, [])"
| "runTransaction (Suc n) [] key upd b =
     (Inr (),
      b\<lparr>documents := (documents b)(key \<mapsto> upd (documents b key))\<rparr>,
      [TxGet key, TxSet key (upd (documents b key))])"
| "runTransaction (Suc n) (w # ws) key upd b =
     (case runTransaction n ws key upd
             (b\<lparr>documents := (documents b)(key \<mapsto> w (documents b key))\<rparr>) of
        (r, b', ops) \<Rightarrow> (r, b', TxGet key # ops))"

subsection \<open>\<^verbatim>\<open>toggleFavoriteInFirestore\<close>\<close>

text \<open>
  The outcome of one call: how the returned promise settles (\<open>Inr\<close> resolved, \<open>Inl\<close>
  rejected), the backing store afterwards, what was sent to it, and what was written
  to the console.
\<close>

record ToggleRun =
  settled :: "firestore_error + unit"
  backend :: Backend
  requests :: "remote_op list"
  console :: "string list"

definition toggleFavoriteInFirestore ::
  "FirebaseService \<Rightarrow> nat \<Rightarrow> (GalleryDoc option \<Rightarrow> GalleryDoc) list \<Rightarrow>
   string \<Rightarrow> DriveFile \<Rightarrow> Backend \<Rightarrow> ToggleRun" where
  "toggleFavoriteInFirestore svc maxAttempts concurrent folderId file b =
     (case db svc of
        None \<Rightarrow> \<lparr>settled = Inr (), backend = b, requests = [], console = []\<rparr>
      | Some _ \<Rightarrow>
          (case runTransaction maxAttempts concurrent folderId (updateFunction file) b of
             (Inr _, b', ops) \<Rightarrow>
               \<lparr>settled = Inr (), backend = b', requests = ops, console = []\<rparr>
           | (Inl error, b', ops) \<Rightarrow>
               \<lparr>settled = Inr (), backend = b', requests = ops,
                console = [''Error updating favorites in Firestore transaction:'']\<rparr>))"

text \<open>
  The document left by the concurrent updates \<open>ws\<close>, applied in order to the document
  \<open>d\<close> (each is itself a committed write, so the document exists afterwards).
\<close>

definition concurrentWrites ::
  "(GalleryDoc option \<Rightarrow> GalleryDoc) list \<Rightarrow> GalleryDoc option \<Rightarrow> GalleryDoc option" where
  "concurrentWrites ws d = foldl (\<lambda>d w. Some (w d)) d ws"

subsection \<open>\<^verbatim>\<open>onFavoritesChange\<close>\<close>

text \<open>
  The unsubscribe function returned to the caller: either the no-op \<^verbatim>\<open>() => {}\<close> or the
  one of \<^verbatim>\<open>onSnapshot\<close>, which detaches the listener it attached.
\<close>

datatype Unsubscribe = NoOpUnsubscribe | DetachListener nat

definition callUnsubscribe :: "Unsubscribe \<Rightarrow> Backend \<Rightarrow> Backend" where
  "callUnsubscribe u b =
     (case u of
        NoOpUnsubscribe \<Rightarrow> b
      | DetachListener l \<Rightarrow> b\<lparr>listeners := filter (\<lambda>(l', key). l' \<noteq> l) (listeners b)\<rparr>)"

text \<open>
  A subscription attempt: the function returned, the store afterwards, and the arguments
  of the calls of \<^verbatim>\<open>callback\<close> made while it was set up.
\<close>

record Subscription =
  unsubscribe :: Unsubscribe
  store :: Backend
  delivered :: "Favorite list list"

text \<open>
  The snapshot handler: \<^verbatim>\<open>docSnap.exists() ? callback(data.favorites || []) : callback([])\<close>.
\<close>

definition snapshotHandler :: "GalleryDoc option \<Rightarrow> Favorite list" where
  "snapshotHandler docSnap =
     (case docSnap of
        Some data \<Rightarrow> (case favorites data of Some favs \<Rightarrow> favs | None \<Rightarrow> [])
      | None \<Rightarrow> [])"

text \<open>
  Modelled from the spec: \<^verbatim>\<open>onSnapshot\<close> belongs to the document store's client library.
  It attaches a listener under a fresh id and delivers the current snapshot at once.
\<close>

definition onSnapshot :: "string \<Rightarrow> (GalleryDoc option \<Rightarrow> Favorite list) \<Rightarrow> Backend \<Rightarrow> Subscription" where
  "onSnapshot key handler b =
     (let l = Suc (foldr max (map fst (listeners b)) 0)
      in \<lparr>unsubscribe = DetachListener l,
          store = b\<lparr>listeners := listeners b @ [(l, key)]\<rparr>,
          delivered = [handler (documents b key)]\<rparr>)"

definition onFavoritesChange :: "FirebaseService \<Rightarrow> string \<Rightarrow> Backend \<Rightarrow> Subscription" where
  "onFavoritesChange svc folderId b =
     (case db svc of
        None \<Rightarrow> \<lparr>unsubscribe = NoOpUnsubscribe, store = b, delivered = []\<rparr>
      | Some _ \<Rightarrow> onSnapshot folderId snapshotHandler b)"

subsection \<open>The hook \<^verbatim>\<open>useFavorites\<close>\<close>

text \<open>
  \<^verbatim>\<open>toggleFavorite\<close> of the hook. \<^verbatim>\<open>folderId\<close> is \<^verbatim>\<open>string | undefined\<close>; \<^verbatim>\<open>!folderId\<close> holds
  for \<^verbatim>\<open>undefined\<close> and for the empty string. \<^verbatim>\<open>allItems.find\<close> returns the first file
  with the id, or \<^verbatim>\<open>undefined\<close>.
\<close>

definition toggleFavorite ::
  "FirebaseService \<Rightarrow> nat \<Rightarrow> (GalleryDoc option \<Rightarrow> GalleryDoc) list \<Rightarrow>
   string option \<Rightarrow> DriveFile list \<Rightarrow> string \<Rightarrow> Backend \<Rightarrow> ToggleRun" where
  "toggleFavorite svc maxAttempts concurrent folderId allItems ident b =
     (case folderId of
        None \<Rightarrow> \<lparr>settled = Inr (), backend = b, requests = [], console = []\<rparr>
      | Some fid \<Rightarrow>
          if fid = [] \<or> \<not> isFirebaseConfigured svc
          then \<lparr>settled = Inr (), backend = b, requests = [], console = []\<rparr>
          else (case find (\<lambda>f. file_id f = ident) allItems of
                  None \<Rightarrow> \<lparr>settled = Inr (), backend = b, requests = [], console = []\<rparr>
                | Some file \<Rightarrow>
                    toggleFavoriteInFirestore svc maxAttempts concurrent fid file b))"

text \<open>
  The state of the hook, \<^verbatim>\<open>const [favorites, setFavorites] = useState<Favorite[]>([])\<close>.
  \<^verbatim>\<open>setFavorites\<close> is called in one place, the callback handed to \<^verbatim>\<open>onFavoritesChange\<close>:
  \<^verbatim>\<open>(newFavorites) => { setFavorites(newFavorites); }\<close>.
\<close>

record HookState =
  localFavorites :: "Favorite list"

definition initialHookState :: HookState where
  "initialHookState = \<lparr>localFavorites = []\<rparr>"

definition subscriptionCallback :: "Favorite list \<Rightarrow> HookState \<Rightarrow> HookState" where
  "subscriptionCallback newFavs st = st\<lparr>localFavorites := newFavs\<rparr>"

text \<open>
  A call of the hook's \<^verbatim>\<open>toggleFavorite\<close> within a viewing session, whose state is the hook
  state next to the store. The body of \<^verbatim>\<open>toggleFavorite\<close> never calls \<^verbatim>\<open>setFavorites\<close>
  (``the local state will be updated automatically by the onSnapshot listener''), so the
  hook state comes back as it went in.
\<close>

definition toggleFavoriteInSession ::
  "FirebaseService \<Rightarrow> nat \<Rightarrow> (GalleryDoc option \<Rightarrow> GalleryDoc) list \<Rightarrow>
   string option \<Rightarrow> DriveFile list \<Rightarrow> string \<Rightarrow> HookState \<times> Backend \<Rightarrow>
   HookState \<times> ToggleRun" where
  "toggleFavoriteInSession svc maxAttempts concurrent folderId allItems ident session =
     (fst session,
      toggleFavorite svc maxAttempts concurrent folderId allItems ident (snd session))"

subsection \<open>Sequences of toggles\<close>

text \<open>
  A call of \<^verbatim>\<open>toggleFavoriteInFirestore\<close> by some session: its module state, the retry budget
  of its transaction, the files that other sessions toggle on the same document while it
  runs, the folder and the file. \<open>toggleSequence\<close> runs a list of such calls one after the
  other on the shared store.
\<close>

type_synonym ToggleCall = "FirebaseService \<times> nat \<times> DriveFile list \<times> string \<times> DriveFile"

fun toggleSequence :: "ToggleCall list \<Rightarrow> Backend \<Rightarrow> Backend" where
  "toggleSequence [] b = b"
| "toggleSequence ((svc, maxAttempts, others, folderId, file) # calls) b =
     toggleSequence calls
       (backend (toggleFavoriteInFirestore svc maxAttempts (map updateFunction others)
                   folderId file b))"

section \<open>Media lister (driveService)\<close>

text \<open>
  The parameters of one request, as \<^verbatim>\<open>URLSearchParams\<close> collects them; \<^verbatim>\<open>pageToken\<close> is
  appended only when the variable is truthy.
\<close>

record Request =
  param_q :: string
  param_key :: string
  param_fields :: string
  param_pageSize :: string
  param_orderBy :: string
  param_pageToken :: "string option"

text \<open>
  What \<^verbatim>\<open>fetch\<close> and \<^verbatim>\<open>response.json()\<close> can give: the request is rejected (network error);
  the status is not a success, with a status text and a body that is not JSON or is JSON
  with an optional \<^verbatim>\<open>error.message\<close>; the status is a success and the body is JSON with
  optional \<^verbatim>\<open>files\<close> and \<^verbatim>\<open>nextPageToken\<close>; or it is a success whose body is not JSON.
\<close>

datatype ErrorBody = NotJson | ErrorJson "string option"

datatype Response =
    Rejected
  | NotOk string ErrorBody
  | OkJson "DriveFile list option" "string option"
  | OkNotJson

datatype js_error = Error string | TypeError | SyntaxError

text \<open>JavaScript truthiness of a \<^verbatim>\<open>string | undefined\<close>: defined and not empty.\<close>

definition truthy :: "string option \<Rightarrow> bool" where
  "truthy s = (case s of None \<Rightarrow> False | Some t \<Rightarrow> t \<noteq> [])"

text \<open>The query starts and continues with a single quote, \<open>CHR 0x27\<close>.\<close>

definition searchParams :: "string \<Rightarrow> string \<Rightarrow> string option \<Rightarrow> Request" where
  "searchParams folderId API_KEY pageToken =
     \<lparr>param_q = CHR 0x27 # folderId @ CHR 0x27 #
        '' in parents and (mimeType contains 'image/' or mimeType contains 'video/') and trashed = false'',
      param_key = API_KEY,
      param_fields = ''nextPageToken, files(id,name,thumbnailLink,mimeType)'',
      param_pageSize = ''1000'',
      param_orderBy = ''createdTime'',
      param_pageToken = (if truthy pageToken then pageToken else None)\<rparr>"

text \<open>
  The message of the error thrown for a response that is not ok:
  \<^verbatim>\<open>errorData.error?.message || errorMsg\<close>, where reading a body that is not JSON throws
  and leaves the default.
\<close>

definition errorMsg :: "string \<Rightarrow> ErrorBody \<Rightarrow> string" where
  "errorMsg statusText body =
     (case body of
        NotJson \<Rightarrow> ''Error fetching files: '' @ statusText
      | ErrorJson message \<Rightarrow>
          (case message of
             None \<Rightarrow> ''Error fetching files: '' @ statusText
           | Some m \<Rightarrow> if m \<noteq> [] then m else ''Error fetching files: '' @ statusText))"

text \<open>
  The \<^verbatim>\<open>do ... while (pageToken)\<close> loop of \<^verbatim>\<open>getFiles\<close>. The provider \<open>fetch\<close> answers each
  request; \<open>sent\<close> records the requests made. The result is how the promise settles
  (\<open>Inl\<close> the error rethrown by the outer \<^verbatim>\<open>catch\<close>, \<open>Inr\<close> the files) with the requests
  made; a loop that never ends has the value \<open>None\<close>.
\<close>

partial_function (option) getFiles_loop ::
  "(Request \<Rightarrow> Response) \<Rightarrow> string \<Rightarrow> string \<Rightarrow> DriveFile list \<Rightarrow> string option \<Rightarrow>
   Request list \<Rightarrow> ((js_error + DriveFile list) \<times> Request list) option" where
  "getFiles_loop fetch folderId API_KEY allFiles pageToken sent =
     (let params = searchParams folderId API_KEY pageToken;
          sent' = sent @ [params]
      in case fetch params of
           Rejected \<Rightarrow> Some (Inl TypeError, sent')
         | NotOk statusText body \<Rightarrow> Some (Inl (Error (errorMsg statusText body)), sent')
         | OkNotJson \<Rightarrow> Some (Inl SyntaxError, sent')
         | OkJson files nextPageToken \<Rightarrow>
             (let allFiles' = (case files of None \<Rightarrow> allFiles | Some fs \<Rightarrow> allFiles @ fs)
              in if truthy nextPageToken
                 then getFiles_loop fetch folderId API_KEY allFiles' nextPageToken sent'
                 else Some (Inr allFiles', sent')))"

text \<open>
  \<^verbatim>\<open>getFiles\<close>: the key check comes before any request. The key (\<^verbatim>\<open>config.ts\<close>) is a
  parameter; \<^verbatim>\<open>!API_KEY\<close> holds for the empty string.
\<close>

definition getFiles ::
  "(Request \<Rightarrow> Response) \<Rightarrow> string \<Rightarrow> string \<Rightarrow>
   ((js_error + DriveFile list) \<times> Request list) option" where
  "getFiles fetch API_KEY folderId =
     (if API_KEY = [] \<or> prefix ''YOUR_'' API_KEY
      then Some (Inl (Error
        ''API key is not configured. Please set the GOOGLE_DRIVE_API_KEY in config.ts.''), [])
      else getFiles_loop fetch folderId API_KEY [] None [])"

subsection \<open>A provider that holds a number of pages\<close>

text \<open>
  A page is what one successful response carries: the optional \<^verbatim>\<open>files\<close> and the optional
  \<^verbatim>\<open>nextPageToken\<close>. \<open>servesPages\<close> says that the provider, asked with \<open>pageToken\<close>, serves
  the given pages one after the other, each carrying a continuation token under which the
  next is served. \<open>tokenAfter\<close> is the token to ask with after them.
\<close>

type_synonym Page = "DriveFile list option \<times> string option"

fun servesPages ::
  "(Request \<Rightarrow> Response) \<Rightarrow> string \<Rightarrow> string \<Rightarrow> string option \<Rightarrow> Page list \<Rightarrow> bool" where
  "servesPages fetch folderId API_KEY pageToken [] = True"
| "servesPages fetch folderId API_KEY pageToken ((files, next) # pages) =
     (fetch (searchParams folderId API_KEY pageToken) = OkJson files next \<and> truthy next \<and>
      servesPages fetch folderId API_KEY next pages)"

fun tokenAfter :: "string option \<Rightarrow> Page list \<Rightarrow> string option" where
  "tokenAfter pageToken [] = pageToken"
| "tokenAfter pageToken ((files, next) # pages) = tokenAfter next pages"

definition pageFiles :: "Page \<Rightarrow> DriveFile list" where
  "pageFiles page = (case fst page of None \<Rightarrow> [] | Some fs \<Rightarrow> fs)"

text \<open>The tokens of the requests that fetch the given pages and one more page.\<close>

fun requestTokens :: "string option \<Rightarrow> Page list \<Rightarrow> string option list" where
  "requestTokens pageToken [] = [pageToken]"
| "requestTokens pageToken ((files, next) # pages) = pageToken # requestTokens next pages"

text \<open>The error, if any, with which a response makes \<^verbatim>\<open>getFiles\<close> fail.\<close>

definition failure :: "Response \<Rightarrow> js_error option" where
  "failure response =
     (case response of
        Rejected \<Rightarrow> Some TypeError
      | NotOk statusText body \<Rightarrow> Some (Error (errorMsg statusText body))
      | OkNotJson \<Rightarrow> Some SyntaxError
      | OkJson files next \<Rightarrow> None)"

section \<open>Gallery windowing (GalleryView)\<close>

text \<open>\<^verbatim>\<open>isFavorited\<close> of the hook: \<^verbatim>\<open>favorites.some(fav => fav.id === id)\<close>.\<close>

definition isFavorited :: "Favorite list \<Rightarrow> string \<Rightarrow> bool" where
  "isFavorited favs ident = list_ex (\<lambda>fav. fav_id fav = ident) favs"

text \<open>
  \<^verbatim>\<open>isFavoritesView ? allItems.filter(item => isFavorited(item.id)) : allItems\<close>
\<close>

definition filteredItems :: "bool \<Rightarrow> DriveFile list \<Rightarrow> Favorite list \<Rightarrow> DriveFile list" where
  "filteredItems isFavoritesView allItems favs =
     (if isFavoritesView then filter (\<lambda>item. isFavorited favs (file_id item)) allItems
      else allItems)"

definition ITEMS_PER_PAGE :: int where
  "ITEMS_PER_PAGE = 50"

text \<open>
  \<^verbatim>\<open>Math.ceil(filteredItems.length / ITEMS_PER_PAGE)\<close>. The quotient of a list length by 50
  in double precision never rounds across an integer, so the exact ceiling is the value.
\<close>

definition totalPages :: "'a list \<Rightarrow> int" where
  "totalPages items = \<lceil>real (length items) / real_of_int ITEMS_PER_PAGE\<rceil>"

text \<open>
  The effect that follows a render:
  \<^verbatim>\<open>if (currentPage > totalPages && totalPages > 0) setCurrentPage(totalPages)\<close>;
  the value is the page afterwards.
\<close>

definition clampCurrentPage :: "int \<Rightarrow> int \<Rightarrow> int" where
  "clampCurrentPage currentPage pages =
     (if currentPage > pages \<and> pages > 0 then pages else currentPage)"

text \<open>
  \<^verbatim>\<open>Array.prototype.slice(start, end)\<close> on integers: a negative index counts from the end,
  both are cut to the array's bounds, and an empty range gives the empty array.
\<close>

definition slice :: "'a list \<Rightarrow> int \<Rightarrow> int \<Rightarrow> 'a list" where
  "slice xs start end =
     (let len = int (length xs);
          k = (if start < 0 then max (len + start) 0 else min start len);
          final = (if end < 0 then max (len + end) 0 else min end len)
      in take (nat (final - k)) (drop (nat k) xs))"

definition visibleItems :: "int \<Rightarrow> 'a list \<Rightarrow> 'a list" where
  "visibleItems currentPage items =
     (let start = (currentPage - 1) * ITEMS_PER_PAGE
      in slice items start (start + ITEMS_PER_PAGE))"

section \<open>Detail viewer (DetailView)\<close>

text \<open>
  \<^verbatim>\<open>setCurrentIndex(i => (i > 0 ? i - 1 : items.length - 1))\<close> and
  \<^verbatim>\<open>setCurrentIndex(i => (i < items.length - 1 ? i + 1 : 0))\<close>: the new index.
\<close>

definition handlePrev :: "'a list \<Rightarrow> int \<Rightarrow> int" where
  "handlePrev items i = (if i > 0 then i - 1 else int (length items) - 1)"

definition handleNext :: "'a list \<Rightarrow> int \<Rightarrow> int" where
  "handleNext items i = (if i < int (length items) - 1 then i + 1 else 0)"

text \<open>\<^verbatim>\<open>items[currentIndex]\<close>: \<^verbatim>\<open>undefined\<close> outside the array.\<close>

definition itemAt :: "'a list \<Rightarrow> int \<Rightarrow> 'a option" where
  "itemAt items i = (if 0 \<le> i \<and> i < int (length items) then Some (items ! nat i) else None)"

text \<open>
  The events the open viewer reacts to, and what a handler does besides setting the index:
  it calls \<^verbatim>\<open>onClose\<close> or \<^verbatim>\<open>onToggleFavorite(id)\<close>, or throws (the space key reads
  \<^verbatim>\<open>items[currentIndex].id\<close> without a guard). The buttons and thumbnails exist only
  while \<^verbatim>\<open>currentItem\<close> is defined (the component renders nothing otherwise).
\<close>

datatype DetailEvent =
    BackButton | PrevButton | NextButton | FavoriteButton | ThumbnailClick nat | KeyDown string

datatype DetailEffect = OnClose | OnToggleFavorite string | Uncaught js_error

definition detailStep :: "DriveFile list \<Rightarrow> DetailEvent \<Rightarrow> int \<Rightarrow> int \<times> DetailEffect list" where
  "detailStep items event currentIndex =
     (case event of
        KeyDown k \<Rightarrow>
          if k = ''Escape'' then (currentIndex, [OnClose])
          else if k = ''ArrowLeft'' then (handlePrev items currentIndex, [])
          else if k = ''ArrowRight'' then (handleNext items currentIndex, [])
          else if k = '' '' then
            (case itemAt items currentIndex of
               Some item \<Rightarrow> (currentIndex, [OnToggleFavorite (file_id item)])
             | None \<Rightarrow> (currentIndex, [Uncaught TypeError]))
          else (currentIndex, [])
      | BackButton \<Rightarrow>
          (case itemAt items currentIndex of
             None \<Rightarrow> (currentIndex, [])
           | Some currentItem \<Rightarrow> (currentIndex, [OnClose]))
      | PrevButton \<Rightarrow>
          (case itemAt items currentIndex of
             None \<Rightarrow> (currentIndex, [])
           | Some currentItem \<Rightarrow> (handlePrev items currentIndex, []))
      | NextButton \<Rightarrow>
          (case itemAt items currentIndex of
             None \<Rightarrow> (currentIndex, [])
           | Some currentItem \<Rightarrow> (handleNext items currentIndex, []))
      | FavoriteButton \<Rightarrow>
          (case itemAt items currentIndex of
             None \<Rightarrow> (currentIndex, [])
           | Some currentItem \<Rightarrow> (currentIndex, [OnToggleFavorite (file_id currentItem)]))
      | ThumbnailClick index \<Rightarrow>
          (case itemAt items currentIndex of
             None \<Rightarrow> (currentIndex, [])
           | Some currentItem \<Rightarrow>
               (if index < length items then int index else currentIndex, [])))"

section \<open>Properties of the favorites store\<close>

lemma isCurrentlyFavorite_iff:
  "isCurrentlyFavorite favs file \<longleftrightarrow> file_id file \<in> fav_id ` set favs"
  unfolding isCurrentlyFavorite_def list_ex_iff by force

lemma newFavorites_present:
  "file_id file \<in> fav_id ` set favs \<Longrightarrow>
   newFavorites favs file = filter (\<lambda>fav. fav_id fav \<noteq> file_id file) favs"
  by (simp add: newFavorites_def isCurrentlyFavorite_iff)

lemma newFavorites_absent:
  "file_id file \<notin> fav_id ` set favs \<Longrightarrow>
   newFavorites favs file = favs @ [\<lparr>fav_id = file_id file, fav_name = file_name file\<rparr>]"
  by (simp add: newFavorites_def isCurrentlyFavorite_iff)

lemma removal_shortens:
  "x \<in> f ` set xs \<Longrightarrow> length (filter (\<lambda>y. f y \<noteq> x) xs) < length xs"
  by (induction xs) (auto simp: less_Suc_eq_le)

lemma runTransaction_commits:
  "length ws < n \<Longrightarrow>
   runTransaction n ws key upd b =
     (Inr (),
      b\<lparr>documents := (documents b)(key \<mapsto> upd (concurrentWrites ws (documents b key)))\<rparr>,
      replicate (length ws) (TxGet key) @
        [TxGet key, TxSet key (upd (concurrentWrites ws (documents b key)))])"
proof (induction n ws key upd b rule: runTransaction.induct)
  case (1 concurrent key upd b)
  then show ?case by simp
next
  case (2 n key upd b)
  then show ?case by (auto simp: concurrentWrites_def fun_eq_iff intro!: Backend.equality)
next
  case (3 n w ws key upd b)
  then show ?case by (auto simp: concurrentWrites_def fun_eq_iff intro!: Backend.equality)
qed

lemma runTransaction_fails:
  "n \<le> length ws \<Longrightarrow>
   runTransaction n ws key upd b =
     (Inl TransactionFailed,
      b\<lparr>documents := (documents b)(key := concurrentWrites (take n ws) (documents b key))\<rparr>,
      replicate n (TxGet key))"
proof (induction n ws key upd b rule: runTransaction.induct)
  case (1 concurrent key upd b)
  then show ?case by (simp add: concurrentWrites_def)
next
  case (2 n key upd b)
  then show ?case by simp
next
  case (3 n w ws key upd b)
  then show ?case by (auto simp: concurrentWrites_def fun_eq_iff intro!: Backend.equality)
qed


lemma currentFavorites_simps:
  "currentFavorites None = []"
  "currentFavorites (Some \<lparr>favorites = fs\<rparr>) = (case fs of None \<Rightarrow> [] | Some favs \<Rightarrow> favs)"
  by (simp_all add: currentFavorites_def)

lemma toggle_configured_commits:
  assumes "length ws < n" and "db svc = Some h"
  shows "toggleFavoriteInFirestore svc n ws key file b =
           \<lparr>settled = Inr (),
            backend = b\<lparr>documents := (documents b)(key \<mapsto>
                          updateFunction file (concurrentWrites ws (documents b key)))\<rparr>,
            requests = replicate (length ws) (TxGet key) @
                         [TxGet key,
                          TxSet key (updateFunction file (concurrentWrites ws (documents b key)))],
            console = []\<rparr>"
  using assms by (simp add: toggleFavoriteInFirestore_def runTransaction_commits)

lemma toggle_configured_fails:
  assumes "n \<le> length ws" and "db svc = Some h"
  shows "toggleFavoriteInFirestore svc n ws key file b =
           \<lparr>settled = Inr (),
            backend = b\<lparr>documents := (documents b)(key :=
                          concurrentWrites (take n ws) (documents b key))\<rparr>,
            requests = replicate n (TxGet key),
            console = [''Error updating favorites in Firestore transaction:'']\<rparr>"
  using assms by (simp add: toggleFavoriteInFirestore_def runTransaction_fails)

lemma toggle_unconfigured:
  assumes "db svc = None"
  shows "toggleFavoriteInFirestore svc n ws key file b =
           \<lparr>settled = Inr (), backend = b, requests = [], console = []\<rparr>"
  using assms by (simp add: toggleFavoriteInFirestore_def)

text \<open>
  Claim C1. With the store configured and a transaction that commits,
  \<^verbatim>\<open>toggleFavoriteInFirestore\<close> reads the folder's document \<open>docSnap\<close> as it stands when the
  committing attempt starts, and writes back a new favorites sequence. When the document
  stores the favorites \<open>favs\<close> and the file's id occurs among their ids, the document
  afterwards stores \<open>favs\<close> without the entries of that id (shorter, nothing appended, the
  other entries as they were and in their order); when the id does not occur, it stores
  \<open>favs\<close> with the one entry for the file appended (nothing removed); when the document
  or its field is missing, it stores that one entry. In each case exactly one write is
  sent, and no other document and no listener changes.
\<close>

theorem toggleFavorite_read_modify_write:
  assumes commit: "length concurrent < maxAttempts"
    and conf: "db svc = Some h"
    and read: "concurrentWrites concurrent (documents b folderId) = docSnap"
    and run: "r = toggleFavoriteInFirestore svc maxAttempts concurrent folderId file b"
  shows "settled r = Inr ()
       \<and> listeners (backend r) = listeners b
       \<and> (\<forall>k. k \<noteq> folderId \<longrightarrow> documents (backend r) k = documents b k)
       \<and> (docSnap = Some \<lparr>favorites = Some favs\<rparr> \<and> file_id file \<in> fav_id ` set favs \<longrightarrow>
            documents (backend r) folderId =
              Some \<lparr>favorites = Some (filter (\<lambda>fav. fav_id fav \<noteq> file_id file) favs)\<rparr>
            \<and> requests r = replicate (length concurrent) (TxGet folderId) @
                  [TxGet folderId,
                   TxSet folderId
                     \<lparr>favorites = Some (filter (\<lambda>fav. fav_id fav \<noteq> file_id file) favs)\<rparr>]
            \<and> file_id file \<notin> fav_id ` set (filter (\<lambda>fav. fav_id fav \<noteq> file_id file) favs)
            \<and> length (filter (\<lambda>fav. fav_id fav \<noteq> file_id file) favs) < length favs)
       \<and> (docSnap = Some \<lparr>favorites = Some favs\<rparr> \<and> file_id file \<notin> fav_id ` set favs \<longrightarrow>
            documents (backend r) folderId =
              Some \<lparr>favorites =
                      Some (favs @ [\<lparr>fav_id = file_id file, fav_name = file_name file\<rparr>])\<rparr>
            \<and> requests r = replicate (length concurrent) (TxGet folderId) @
                  [TxGet folderId,
                   TxSet folderId
                     \<lparr>favorites =
                        Some (favs @ [\<lparr>fav_id = file_id file, fav_name = file_name file\<rparr>])\<rparr>])
       \<and> (docSnap = None \<or> docSnap = Some \<lparr>favorites = None\<rparr> \<longrightarrow>
            documents (backend r) folderId =
              Some \<lparr>favorites = Some [\<lparr>fav_id = file_id file, fav_name = file_name file\<rparr>]\<rparr>
            \<and> requests r = replicate (length concurrent) (TxGet folderId) @
                  [TxGet folderId,
                   TxSet folderId
                     \<lparr>favorites =
                        Some [\<lparr>fav_id = file_id file, fav_name = file_name file\<rparr>]\<rparr>])"
proof -
  have r: "r = \<lparr>settled = Inr (),
            backend = b\<lparr>documents := (documents b)(folderId \<mapsto> updateFunction file docSnap)\<rparr>,
            requests = replicate (length concurrent) (TxGet folderId) @
                         [TxGet folderId, TxSet folderId (updateFunction file docSnap)],
            console = []\<rparr>"
    unfolding run using toggle_configured_commits [OF commit conf] by (simp add: read)
  have frame: "settled r = Inr ()" "listeners (backend r) = listeners b"
      "\<forall>k. k \<noteq> folderId \<longrightarrow> documents (backend r) k = documents b k"
    by (simp_all add: r)
  have written: "documents (backend r) folderId = Some (updateFunction file docSnap)"
      "requests r = replicate (length concurrent) (TxGet folderId) @
         [TxGet folderId, TxSet folderId (updateFunction file docSnap)]"
    by (simp_all add: r)
  have present: "updateFunction file docSnap =
        \<lparr>favorites = Some (filter (\<lambda>fav. fav_id fav \<noteq> file_id file) favs)\<rparr>"
    if "docSnap = Some \<lparr>favorites = Some favs\<rparr>" "file_id file \<in> fav_id ` set favs"
    using that by (simp add: updateFunction_def currentFavorites_def newFavorites_present)
  have absent: "updateFunction file docSnap =
        \<lparr>favorites = Some (favs @ [\<lparr>fav_id = file_id file, fav_name = file_name file\<rparr>])\<rparr>"
    if "docSnap = Some \<lparr>favorites = Some favs\<rparr>" "file_id file \<notin> fav_id ` set favs"
    using that by (simp add: updateFunction_def currentFavorites_def newFavorites_absent)
  have missing: "updateFunction file docSnap =
        \<lparr>favorites = Some [\<lparr>fav_id = file_id file, fav_name = file_name file\<rparr>]\<rparr>"
    if "docSnap = None \<or> docSnap = Some \<lparr>favorites = None\<rparr>"
    using that
    by (auto simp: updateFunction_def currentFavorites_def newFavorites_def
          isCurrentlyFavorite_def)
  have shorter: "length (filter (\<lambda>fav. fav_id fav \<noteq> file_id file) favs) < length favs"
    if "file_id file \<in> fav_id ` set favs"
    using that by (rule removal_shortens)
  have gone: "file_id file \<notin> fav_id ` set (filter (\<lambda>fav. fav_id fav \<noteq> file_id file) favs)"
    by auto
  show ?thesis
    using frame written present absent missing shorter gone by simp
qed

theorem toggleFavorite_read_modify_write_witness:
  "documents (backend (toggleFavoriteInFirestore
      \<lparr>db = Some FirestoreHandle, isFirebaseConfigured = True\<rparr> 5 [] ''folder''
      \<lparr>file_id = ''a'', file_name = ''a.jpg'', thumbnailLink = ''t'', mimeType = ''image/jpeg''\<rparr>
      \<lparr>documents = [''folder'' \<mapsto> \<lparr>favorites = Some
           [\<lparr>fav_id = ''b'', fav_name = ''b.jpg''\<rparr>, \<lparr>fav_id = ''a'', fav_name = ''a.jpg''\<rparr>,
            \<lparr>fav_id = ''c'', fav_name = ''c.jpg''\<rparr>]\<rparr>],
       listeners = []\<rparr>)) ''folder''
     = Some \<lparr>favorites = Some
         [\<lparr>fav_id = ''b'', fav_name = ''b.jpg''\<rparr>, \<lparr>fav_id = ''c'', fav_name = ''c.jpg''\<rparr>]\<rparr>
   \<and> documents (backend (toggleFavoriteInFirestore
      \<lparr>db = Some FirestoreHandle, isFirebaseConfigured = True\<rparr> 5
      [updateFunction
         \<lparr>file_id = ''c'', file_name = ''c.jpg'', thumbnailLink = ''t'', mimeType = ''image/jpeg''\<rparr>]
      ''folder''
      \<lparr>file_id = ''a'', file_name = ''a.jpg'', thumbnailLink = ''t'', mimeType = ''image/jpeg''\<rparr>
      \<lparr>documents = [''folder'' \<mapsto> \<lparr>favorites = Some [\<lparr>fav_id = ''b'', fav_name = ''b.jpg''\<rparr>]\<rparr>],
       listeners = []\<rparr>)) ''folder''
     = Some \<lparr>favorites = Some
         [\<lparr>fav_id = ''b'', fav_name = ''b.jpg''\<rparr>, \<lparr>fav_id = ''c'', fav_name = ''c.jpg''\<rparr>,
          \<lparr>fav_id = ''a'', fav_name = ''a.jpg''\<rparr>]\<rparr>"
proof -
  have removal: "documents (backend (toggleFavoriteInFirestore
      \<lparr>db = Some FirestoreHandle, isFirebaseConfigured = True\<rparr> 5 [] ''folder''
      \<lparr>file_id = ''a'', file_name = ''a.jpg'', thumbnailLink = ''t'', mimeType = ''image/jpeg''\<rparr>
      \<lparr>documents = [''folder'' \<mapsto> \<lparr>favorites = Some
           [\<lparr>fav_id = ''b'', fav_name = ''b.jpg''\<rparr>, \<lparr>fav_id = ''a'', fav_name = ''a.jpg''\<rparr>,
            \<lparr>fav_id = ''c'', fav_name = ''c.jpg''\<rparr>]\<rparr>],
       listeners = []\<rparr>)) ''folder''
     = Some \<lparr>favorites = Some
         [\<lparr>fav_id = ''b'', fav_name = ''b.jpg''\<rparr>, \<lparr>fav_id = ''c'', fav_name = ''c.jpg''\<rparr>]\<rparr>"
    using toggleFavorite_read_modify_write
      [of "[]" 5 "\<lparr>db = Some FirestoreHandle, isFirebaseConfigured = True\<rparr>" FirestoreHandle
          "\<lparr>documents = [''folder'' \<mapsto> \<lparr>favorites = Some
             [\<lparr>fav_id = ''b'', fav_name = ''b.jpg''\<rparr>, \<lparr>fav_id = ''a'', fav_name = ''a.jpg''\<rparr>,
              \<lparr>fav_id = ''c'', fav_name = ''c.jpg''\<rparr>]\<rparr>],
            listeners = []\<rparr>"
          "''folder''"
          "Some \<lparr>favorites = Some
             [\<lparr>fav_id = ''b'', fav_name = ''b.jpg''\<rparr>, \<lparr>fav_id = ''a'', fav_name = ''a.jpg''\<rparr>,
              \<lparr>fav_id = ''c'', fav_name = ''c.jpg''\<rparr>]\<rparr>"
          _
          "\<lparr>file_id = ''a'', file_name = ''a.jpg'', thumbnailLink = ''t'', mimeType = ''image/jpeg''\<rparr>"
          "[\<lparr>fav_id = ''b'', fav_name = ''b.jpg''\<rparr>, \<lparr>fav_id = ''a'', fav_name = ''a.jpg''\<rparr>,
            \<lparr>fav_id = ''c'', fav_name = ''c.jpg''\<rparr>]",
       OF _ _ _ refl]
    by (simp add: concurrentWrites_def)
  have append: "documents (backend (toggleFavoriteInFirestore
      \<lparr>db = Some FirestoreHandle, isFirebaseConfigured = True\<rparr> 5
      [updateFunction
         \<lparr>file_id = ''c'', file_name = ''c.jpg'', thumbnailLink = ''t'', mimeType = ''image/jpeg''\<rparr>]
      ''folder''
      \<lparr>file_id = ''a'', file_name = ''a.jpg'', thumbnailLink = ''t'', mimeType = ''image/jpeg''\<rparr>
      \<lparr>documents = [''folder'' \<mapsto> \<lparr>favorites = Some [\<lparr>fav_id = ''b'', fav_name = ''b.jpg''\<rparr>]\<rparr>],
       listeners = []\<rparr>)) ''folder''
     = Some \<lparr>favorites = Some
         [\<lparr>fav_id = ''b'', fav_name = ''b.jpg''\<rparr>, \<lparr>fav_id = ''c'', fav_name = ''c.jpg''\<rparr>,
          \<lparr>fav_id = ''a'', fav_name = ''a.jpg''\<rparr>]\<rparr>"
    using toggleFavorite_read_modify_write
      [of "[updateFunction
             \<lparr>file_id = ''c'', file_name = ''c.jpg'', thumbnailLink = ''t'', mimeType = ''image/jpeg''\<rparr>]"
          5 "\<lparr>db = Some FirestoreHandle, isFirebaseConfigured = True\<rparr>" FirestoreHandle
          "\<lparr>documents = [''folder'' \<mapsto> \<lparr>favorites = Some [\<lparr>fav_id = ''b'', fav_name = ''b.jpg''\<rparr>]\<rparr>],
            listeners = []\<rparr>"
          "''folder''"
          "Some \<lparr>favorites = Some
             [\<lparr>fav_id = ''b'', fav_name = ''b.jpg''\<rparr>, \<lparr>fav_id = ''c'', fav_name = ''c.jpg''\<rparr>]\<rparr>"
          _
          "\<lparr>file_id = ''a'', file_name = ''a.jpg'', thumbnailLink = ''t'', mimeType = ''image/jpeg''\<rparr>"
          "[\<lparr>fav_id = ''b'', fav_name = ''b.jpg''\<rparr>, \<lparr>fav_id = ''c'', fav_name = ''c.jpg''\<rparr>]",
       OF _ _ _ refl]
    by (simp add: concurrentWrites_def updateFunction_def currentFavorites_def
          newFavorites_def isCurrentlyFavorite_def)
  from removal append show ?thesis by (rule conjI)
qed

lemma newFavorites_ids_present:
  "file_id file \<in> fav_id ` set favs \<Longrightarrow>
   fav_id ` set (newFavorites favs file) = fav_id ` set favs - {file_id file}"
  by (auto simp: newFavorites_present)

lemma newFavorites_ids_absent:
  "file_id file \<notin> fav_id ` set favs \<Longrightarrow>
   fav_id ` set (newFavorites favs file) = insert (file_id file) (fav_id ` set favs)"
  by (auto simp: newFavorites_absent)

lemma newFavorites_twice_ids:
  "fav_id ` set (newFavorites (newFavorites favs file) file) = fav_id ` set favs"
proof (cases "file_id file \<in> fav_id ` set favs")
  case True
  then have out: "file_id file \<notin> fav_id ` set (newFavorites favs file)"
    by (simp add: newFavorites_ids_present)
  show ?thesis
    using True by (auto simp: newFavorites_ids_absent [OF out] newFavorites_ids_present)
next
  case False
  then have inn: "file_id file \<in> fav_id ` set (newFavorites favs file)"
    by (simp add: newFavorites_ids_absent)
  show ?thesis
    using False by (auto simp: newFavorites_ids_present [OF inn] newFavorites_ids_absent)
qed

lemma newFavorites_twice_absent:
  assumes "file_id file \<notin> fav_id ` set favs"
  shows "newFavorites (newFavorites favs file) file = favs"
proof -
  have keep: "filter (\<lambda>fav. fav_id fav \<noteq> file_id file) favs = favs"
    using assms by (induction favs) auto
  have inn: "file_id file \<in> fav_id ` set (newFavorites favs file)"
    using assms by (simp add: newFavorites_ids_absent)
  have "newFavorites (newFavorites favs file) file =
          filter (\<lambda>fav. fav_id fav \<noteq> file_id file) (newFavorites favs file)"
    by (rule newFavorites_present [OF inn])
  also have "\<dots> = filter (\<lambda>fav. fav_id fav \<noteq> file_id file) favs"
    by (simp add: newFavorites_absent [OF assms])
  finally show ?thesis by (simp add: keep)
qed

lemma toggle_once_favorites:
  "currentFavorites (documents (backend (toggleFavoriteInFirestore svc (Suc n) [] key file b)) key) =
     (case db svc of None \<Rightarrow> currentFavorites (documents b key)
      | Some h \<Rightarrow> newFavorites (currentFavorites (documents b key)) file)"
proof (cases "db svc")
  case None
  then show ?thesis by (simp add: toggle_unconfigured)
next
  case (Some h)
  have "length ([] :: (GalleryDoc option \<Rightarrow> GalleryDoc) list) < Suc n" by simp
  from toggle_configured_commits [OF this Some] Some show ?thesis
    by (simp add: concurrentWrites_def updateFunction_def currentFavorites_def)
qed

lemma toggle_other_documents:
  "k \<noteq> key \<Longrightarrow>
   documents (backend (toggleFavoriteInFirestore svc n ws key file b)) k = documents b k"
proof (cases "db svc")
  case None
  then show ?thesis by (simp add: toggle_unconfigured)
next
  case (Some h)
  assume k: "k \<noteq> key"
  show ?thesis
  proof (cases "length ws < n")
    case True
    from toggle_configured_commits [OF True Some] k show ?thesis by simp
  next
    case False
    then have "n \<le> length ws" by simp
    from toggle_configured_fails [OF this Some] k show ?thesis by simp
  qed
qed

text \<open>
  Claim C3. Toggling the same file twice gives back the original set of favorited ids:
  on the shared document, for two calls of \<^verbatim>\<open>toggleFavoriteInFirestore\<close> whose transactions
  commit undisturbed (and trivially when the store is not configured), and on the transaction
  body itself for every favorites sequence. When the id was absent at first, the sequence
  itself comes back.
\<close>

theorem toggle_twice_round_trip:
  "fav_id ` set (currentFavorites (documents (backend
      (toggleFavoriteInFirestore svc (Suc m) [] folderId file
         (backend (toggleFavoriteInFirestore svc (Suc n) [] folderId file b)))) folderId))
     = fav_id ` set (currentFavorites (documents b folderId))
   \<and> fav_id ` set (newFavorites (newFavorites favs file) file) = fav_id ` set favs
   \<and> (file_id file \<notin> fav_id ` set favs \<longrightarrow>
        newFavorites (newFavorites favs file) file = favs)"
  by (cases "db svc")
     (simp_all add: toggle_once_favorites newFavorites_twice_ids newFavorites_twice_absent)

theorem toggle_twice_round_trip_witness:
  "fav_id ` set (currentFavorites (documents (backend
      (toggleFavoriteInFirestore \<lparr>db = Some FirestoreHandle, isFirebaseConfigured = True\<rparr> 5 [] ''folder''
         \<lparr>file_id = ''a'', file_name = ''a.jpg'', thumbnailLink = ''t'', mimeType = ''image/jpeg''\<rparr>
         (backend (toggleFavoriteInFirestore \<lparr>db = Some FirestoreHandle, isFirebaseConfigured = True\<rparr> 5 []
            ''folder''
            \<lparr>file_id = ''a'', file_name = ''a.jpg'', thumbnailLink = ''t'', mimeType = ''image/jpeg''\<rparr>
            \<lparr>documents = [''folder'' \<mapsto> \<lparr>favorites = Some [\<lparr>fav_id = ''b'', fav_name = ''b.jpg''\<rparr>]\<rparr>],
             listeners = []\<rparr>)))) ''folder''))
     = {''b''}
   \<and> newFavorites (newFavorites [\<lparr>fav_id = ''b'', fav_name = ''b.jpg''\<rparr>]
          \<lparr>file_id = ''a'', file_name = ''a.jpg'', thumbnailLink = ''t'', mimeType = ''image/jpeg''\<rparr>)
          \<lparr>file_id = ''a'', file_name = ''a.jpg'', thumbnailLink = ''t'', mimeType = ''image/jpeg''\<rparr>
       = [\<lparr>fav_id = ''b'', fav_name = ''b.jpg''\<rparr>]"
  using toggle_twice_round_trip
    [of "\<lparr>db = Some FirestoreHandle, isFirebaseConfigured = True\<rparr>" 4 "''folder''"
        "\<lparr>file_id = ''a'', file_name = ''a.jpg'', thumbnailLink = ''t'', mimeType = ''image/jpeg''\<rparr>"
        4 "\<lparr>documents = [''folder'' \<mapsto> \<lparr>favorites = Some [\<lparr>fav_id = ''b'', fav_name = ''b.jpg''\<rparr>]\<rparr>],
             listeners = []\<rparr>"
        "[\<lparr>fav_id = ''b'', fav_name = ''b.jpg''\<rparr>]"]
  by (simp add: currentFavorites_def)

lemma newFavorites_distinct:
  assumes "distinct (map fav_id favs)"
  shows "distinct (map fav_id (newFavorites favs file))"
proof (cases "file_id file \<in> fav_id ` set favs")
  case True
  then show ?thesis using assms by (simp add: newFavorites_present distinct_map_filter)
next
  case False
  then show ?thesis using assms by (simp add: newFavorites_absent)
qed

lemma updateFunction_distinct:
  "distinct (map fav_id (currentFavorites d)) \<Longrightarrow>
   distinct (map fav_id (currentFavorites (Some (updateFunction file d))))"
  by (simp add: updateFunction_def currentFavorites_simps newFavorites_distinct)

lemma concurrentWrites_distinct:
  "distinct (map fav_id (currentFavorites d)) \<Longrightarrow>
   distinct (map fav_id (currentFavorites (concurrentWrites (map updateFunction others) d)))"
proof (induction others arbitrary: d)
  case Nil
  then show ?case by (simp add: concurrentWrites_def)
next
  case (Cons f fs)
  have "concurrentWrites (map updateFunction (f # fs)) d =
        concurrentWrites (map updateFunction fs) (Some (updateFunction f d))"
    by (simp add: concurrentWrites_def)
  with Cons show ?case by (simp add: updateFunction_distinct)
qed

lemma toggle_preserves_distinct:
  assumes "distinct (map fav_id (currentFavorites (documents b k)))"
  shows "distinct (map fav_id (currentFavorites (documents (backend
           (toggleFavoriteInFirestore svc n (map updateFunction others) key file b)) k)))"
proof (cases "k = key")
  case False
  with assms show ?thesis by (simp add: toggle_other_documents)
next
  case True
  show ?thesis
  proof (cases "db svc")
    case None
    with assms show ?thesis by (simp add: toggle_unconfigured)
  next
    case (Some h)
    show ?thesis
    proof (cases "length (map updateFunction others) < n")
      case commits: True
      have "distinct (map fav_id (currentFavorites (Some (updateFunction file
              (concurrentWrites (map updateFunction others) (documents b key))))))"
        using assms True by (intro updateFunction_distinct concurrentWrites_distinct) simp
      then show ?thesis
        using toggle_configured_commits [OF commits Some, of key "file" b] True by simp
    next
      case False
      then have fails: "n \<le> length (map updateFunction others)" by simp
      have "distinct (map fav_id (currentFavorites
              (concurrentWrites (map updateFunction (take n others)) (documents b key))))"
        using assms True by (intro concurrentWrites_distinct) simp
      then show ?thesis
        using toggle_configured_fails [OF fails Some, of key "file" b] True
        by (simp add: take_map)
    qed
  qed
qed

lemma toggleSequence_distinct:
  "distinct (map fav_id (currentFavorites (documents b k))) \<Longrightarrow>
   distinct (map fav_id (currentFavorites (documents (toggleSequence calls b) k)))"
proof (induction calls b rule: toggleSequence.induct)
  case (1 b)
  then show ?case by simp
next
  case (2 svc maxAttempts others folderId fl calls b)
  then show ?case by (simp add: toggle_preserves_distinct)
qed

text \<open>
  Claim C9. Starting from a document that is missing or holds no favorites, after any
  sequence of calls of \<^verbatim>\<open>toggleFavoriteInFirestore\<close> (by any sessions, committed or
  not, disturbed by other sessions' toggles or not) no two stored favorites share an id;
  and every single call preserves this.
\<close>

theorem favorites_never_duplicate:
  "(currentFavorites (documents b folderId) = [] \<longrightarrow>
      distinct (map fav_id (currentFavorites (documents (toggleSequence calls b) folderId))))
   \<and> (distinct (map fav_id (currentFavorites (documents b folderId))) \<longrightarrow>
      distinct (map fav_id (currentFavorites (documents (backend
        (toggleFavoriteInFirestore svc n (map updateFunction others) key file b)) folderId))))"
  using toggleSequence_distinct [of b folderId calls]
    toggle_preserves_distinct [of b folderId svc n others key "file"]
  by simp


theorem favorites_never_duplicate_witness:
  "distinct (map fav_id (currentFavorites (documents (toggleSequence
      [(\<lparr>db = Some FirestoreHandle, isFirebaseConfigured = True\<rparr>, 5, [], ''folder'', \<lparr>file_id = ''a'', file_name = ''a.jpg'', thumbnailLink = ''t'', mimeType = ''image/jpeg''\<rparr>),
       (\<lparr>db = Some FirestoreHandle, isFirebaseConfigured = True\<rparr>, 5, [\<lparr>file_id = ''a'', file_name = ''a.jpg'', thumbnailLink = ''t'', mimeType = ''image/jpeg''\<rparr>], ''folder'', \<lparr>file_id = ''b'', file_name = ''b.jpg'', thumbnailLink = ''t'', mimeType = ''image/jpeg''\<rparr>),
       (\<lparr>db = Some FirestoreHandle, isFirebaseConfigured = True\<rparr>, 1, [\<lparr>file_id = ''b'', file_name = ''b.jpg'', thumbnailLink = ''t'', mimeType = ''image/jpeg''\<rparr>], ''folder'', \<lparr>file_id = ''a'', file_name = ''a.jpg'', thumbnailLink = ''t'', mimeType = ''image/jpeg''\<rparr>)] \<lparr>documents = Map.empty, listeners = []\<rparr>) ''folder'')))
   \<and> distinct (map fav_id (currentFavorites (documents (backend
        (toggleFavoriteInFirestore \<lparr>db = Some FirestoreHandle, isFirebaseConfigured = True\<rparr> 5 (map updateFunction [\<lparr>file_id = ''b'', file_name = ''b.jpg'', thumbnailLink = ''t'', mimeType = ''image/jpeg''\<rparr>]) ''folder'' \<lparr>file_id = ''a'', file_name = ''a.jpg'', thumbnailLink = ''t'', mimeType = ''image/jpeg''\<rparr> \<lparr>documents = Map.empty, listeners = []\<rparr>)) ''folder'')))"
  using favorites_never_duplicate
    [of "\<lparr>documents = Map.empty, listeners = []\<rparr>" "''folder''"
        "[(\<lparr>db = Some FirestoreHandle, isFirebaseConfigured = True\<rparr>, 5, [], ''folder'', \<lparr>file_id = ''a'', file_name = ''a.jpg'', thumbnailLink = ''t'', mimeType = ''image/jpeg''\<rparr>),
          (\<lparr>db = Some FirestoreHandle, isFirebaseConfigured = True\<rparr>, 5, [\<lparr>file_id = ''a'', file_name = ''a.jpg'', thumbnailLink = ''t'', mimeType = ''image/jpeg''\<rparr>], ''folder'', \<lparr>file_id = ''b'', file_name = ''b.jpg'', thumbnailLink = ''t'', mimeType = ''image/jpeg''\<rparr>),
          (\<lparr>db = Some FirestoreHandle, isFirebaseConfigured = True\<rparr>, 1, [\<lparr>file_id = ''b'', file_name = ''b.jpg'', thumbnailLink = ''t'', mimeType = ''image/jpeg''\<rparr>], ''folder'', \<lparr>file_id = ''a'', file_name = ''a.jpg'', thumbnailLink = ''t'', mimeType = ''image/jpeg''\<rparr>)]"
        "\<lparr>db = Some FirestoreHandle, isFirebaseConfigured = True\<rparr>" 5 "[\<lparr>file_id = ''b'', file_name = ''b.jpg'', thumbnailLink = ''t'', mimeType = ''image/jpeg''\<rparr>]" "''folder''" "\<lparr>file_id = ''a'', file_name = ''a.jpg'', thumbnailLink = ''t'', mimeType = ''image/jpeg''\<rparr>"]
  by (simp add: currentFavorites_def)

text \<open>
  Claim C2, as stated, fails: a transaction whose only attempt is voided by a concurrent
  writer fails, and the call still resolves (the \<^verbatim>\<open>catch\<close> block only logs).
\<close>

theorem toggle_failure_not_raised:
  "fst (runTransaction 1 [updateFunction \<lparr>file_id = ''b'', file_name = ''b.jpg'', thumbnailLink = ''t'', mimeType = ''image/jpeg''\<rparr>] ''folder'' (updateFunction \<lparr>file_id = ''a'', file_name = ''a.jpg'', thumbnailLink = ''t'', mimeType = ''image/jpeg''\<rparr>) \<lparr>documents = Map.empty, listeners = []\<rparr>)
     = Inl TransactionFailed
   \<and> settled (toggleFavoriteInFirestore \<lparr>db = Some FirestoreHandle, isFirebaseConfigured = True\<rparr> 1 [updateFunction \<lparr>file_id = ''b'', file_name = ''b.jpg'', thumbnailLink = ''t'', mimeType = ''image/jpeg''\<rparr>] ''folder'' \<lparr>file_id = ''a'', file_name = ''a.jpg'', thumbnailLink = ''t'', mimeType = ''image/jpeg''\<rparr> \<lparr>documents = Map.empty, listeners = []\<rparr>) = Inr ()"
  by (simp add: toggleFavoriteInFirestore_def)

text \<open>
  Claim C2, amended. When every attempt within the retry budget is voided by a concurrent
  writer, \<^verbatim>\<open>toggleFavoriteInFirestore\<close> logs the failure and resolves; it sent reads only,
  so the document holds exactly what the concurrent writers committed, and with it the
  listeners are unchanged. The hook's call that led to it leaves the hook's favorites as
  they were: no local state is mutated by the call.
\<close>

theorem toggle_failure_logged_and_resolved:
  assumes "maxAttempts \<le> length concurrent"
    and "db svc = Some h"
    and "r = toggleFavoriteInFirestore svc maxAttempts concurrent folderId file b"
  shows "settled r = Inr ()
       \<and> console r = [''Error updating favorites in Firestore transaction:'']
       \<and> requests r = replicate maxAttempts (TxGet folderId)
       \<and> documents (backend r) = (documents b)(folderId :=
            concurrentWrites (take maxAttempts concurrent) (documents b folderId))
       \<and> listeners (backend r) = listeners b
       \<and> (maxAttempts = 0 \<longrightarrow> backend r = b)
       \<and> fst (toggleFavoriteInSession svc maxAttempts concurrent viewFolder allItems ident
                (st, b)) = st
       \<and> (viewFolder = Some folderId \<and> folderId \<noteq> [] \<and> isFirebaseConfigured svc \<and>
           find (\<lambda>f. file_id f = ident) allItems = Some file \<longrightarrow>
            toggleFavoriteInSession svc maxAttempts concurrent viewFolder allItems ident (st, b)
              = (st, r))"
proof -
  have remote: "settled r = Inr ()
       \<and> console r = [''Error updating favorites in Firestore transaction:'']
       \<and> requests r = replicate maxAttempts (TxGet folderId)
       \<and> documents (backend r) = (documents b)(folderId :=
            concurrentWrites (take maxAttempts concurrent) (documents b folderId))
       \<and> listeners (backend r) = listeners b
       \<and> (maxAttempts = 0 \<longrightarrow> backend r = b)"
    using toggle_configured_fails [OF assms(1,2), of folderId "file" b] assms(3)
    by (auto simp: concurrentWrites_def)
  have local: "fst (toggleFavoriteInSession svc maxAttempts concurrent viewFolder allItems ident
                (st, b)) = st"
    by (simp add: toggleFavoriteInSession_def)
  have hook: "viewFolder = Some folderId \<and> folderId \<noteq> [] \<and> isFirebaseConfigured svc \<and>
           find (\<lambda>f. file_id f = ident) allItems = Some file \<longrightarrow>
            toggleFavoriteInSession svc maxAttempts concurrent viewFolder allItems ident (st, b)
              = (st, r)"
    by (simp add: toggleFavoriteInSession_def toggleFavorite_def assms(3))
  from remote local hook show ?thesis
    by (elim conjE) (intro conjI; assumption)
qed

theorem toggle_failure_logged_and_resolved_witness:
  "settled (toggleFavoriteInFirestore \<lparr>db = Some FirestoreHandle, isFirebaseConfigured = True\<rparr> 1 [updateFunction \<lparr>file_id = ''b'', file_name = ''b.jpg'', thumbnailLink = ''t'', mimeType = ''image/jpeg''\<rparr>] ''folder'' \<lparr>file_id = ''a'', file_name = ''a.jpg'', thumbnailLink = ''t'', mimeType = ''image/jpeg''\<rparr> \<lparr>documents = Map.empty, listeners = []\<rparr>) = Inr ()
   \<and> console (toggleFavoriteInFirestore \<lparr>db = Some FirestoreHandle, isFirebaseConfigured = True\<rparr> 1 [updateFunction \<lparr>file_id = ''b'', file_name = ''b.jpg'', thumbnailLink = ''t'', mimeType = ''image/jpeg''\<rparr>] ''folder'' \<lparr>file_id = ''a'', file_name = ''a.jpg'', thumbnailLink = ''t'', mimeType = ''image/jpeg''\<rparr> \<lparr>documents = Map.empty, listeners = []\<rparr>)
        = [''Error updating favorites in Firestore transaction:'']
   \<and> requests (toggleFavoriteInFirestore \<lparr>db = Some FirestoreHandle, isFirebaseConfigured = True\<rparr> 1 [updateFunction \<lparr>file_id = ''b'', file_name = ''b.jpg'', thumbnailLink = ''t'', mimeType = ''image/jpeg''\<rparr>] ''folder'' \<lparr>file_id = ''a'', file_name = ''a.jpg'', thumbnailLink = ''t'', mimeType = ''image/jpeg''\<rparr> \<lparr>documents = Map.empty, listeners = []\<rparr>)
        = [TxGet ''folder'']
   \<and> documents (backend (toggleFavoriteInFirestore \<lparr>db = Some FirestoreHandle, isFirebaseConfigured = True\<rparr> 1 [updateFunction \<lparr>file_id = ''b'', file_name = ''b.jpg'', thumbnailLink = ''t'', mimeType = ''image/jpeg''\<rparr>] ''folder'' \<lparr>file_id = ''a'', file_name = ''a.jpg'', thumbnailLink = ''t'', mimeType = ''image/jpeg''\<rparr> \<lparr>documents = Map.empty, listeners = []\<rparr>))
        = [''folder'' \<mapsto> \<lparr>favorites = Some [\<lparr>fav_id = ''b'', fav_name = ''b.jpg''\<rparr>]\<rparr>]
   \<and> toggleFavoriteInSession \<lparr>db = Some FirestoreHandle, isFirebaseConfigured = True\<rparr> 1 [updateFunction \<lparr>file_id = ''b'', file_name = ''b.jpg'', thumbnailLink = ''t'', mimeType = ''image/jpeg''\<rparr>] (Some ''folder'') [\<lparr>file_id = ''a'', file_name = ''a.jpg'', thumbnailLink = ''t'', mimeType = ''image/jpeg''\<rparr>] ''a''
        (subscriptionCallback [\<lparr>fav_id = ''c'', fav_name = ''c.jpg''\<rparr>] initialHookState, \<lparr>documents = Map.empty, listeners = []\<rparr>)
        = (\<lparr>localFavorites = [\<lparr>fav_id = ''c'', fav_name = ''c.jpg''\<rparr>]\<rparr>, toggleFavoriteInFirestore \<lparr>db = Some FirestoreHandle, isFirebaseConfigured = True\<rparr> 1 [updateFunction \<lparr>file_id = ''b'', file_name = ''b.jpg'', thumbnailLink = ''t'', mimeType = ''image/jpeg''\<rparr>] ''folder'' \<lparr>file_id = ''a'', file_name = ''a.jpg'', thumbnailLink = ''t'', mimeType = ''image/jpeg''\<rparr> \<lparr>documents = Map.empty, listeners = []\<rparr>)"
  using toggle_failure_logged_and_resolved
    [of 1 "[updateFunction \<lparr>file_id = ''b'', file_name = ''b.jpg'', thumbnailLink = ''t'', mimeType = ''image/jpeg''\<rparr>]" "\<lparr>db = Some FirestoreHandle, isFirebaseConfigured = True\<rparr>" FirestoreHandle _ "''folder''" "\<lparr>file_id = ''a'', file_name = ''a.jpg'', thumbnailLink = ''t'', mimeType = ''image/jpeg''\<rparr>" "\<lparr>documents = Map.empty, listeners = []\<rparr>"
        "Some ''folder''" "[\<lparr>file_id = ''a'', file_name = ''a.jpg'', thumbnailLink = ''t'', mimeType = ''image/jpeg''\<rparr>]" "''a''" "subscriptionCallback [\<lparr>fav_id = ''c'', fav_name = ''c.jpg''\<rparr>] initialHookState", OF _ _ refl]
  by (simp add: concurrentWrites_def updateFunction_def currentFavorites_def
        newFavorites_def isCurrentlyFavorite_def subscriptionCallback_def
        initialHookState_def)

lemma initFirebase_unconfigured:
  "list_ex (\<lambda>value. sublist ''YOUR_'' value) configValues \<or> sdkThrows \<Longrightarrow>
   db (initFirebase configValues sdkThrows) = None \<and>
   \<not> isFirebaseConfigured (initFirebase configValues sdkThrows)"
  by (auto simp: initFirebase_def)

lemma initFirebase_flag:
  "isFirebaseConfigured (initFirebase configValues sdkThrows) \<longleftrightarrow>
   db (initFirebase configValues sdkThrows) \<noteq> None"
  by (simp add: initFirebase_def)

text \<open>
  Claim C5. When the store is not configured (\<^verbatim>\<open>db\<close> is undefined),
  \<^verbatim>\<open>onFavoritesChange\<close> returns an unsubscribe function that does nothing, attaches no
  listener and calls no callback, and \<^verbatim>\<open>toggleFavoriteInFirestore\<close>, and with it
  \<^verbatim>\<open>toggleFavorite\<close> of the hook, resolves without sending anything to the store.
\<close>

theorem unconfigured_store_is_disabled:
  assumes "db svc = None"
  shows "unsubscribe (onFavoritesChange svc folderId b) = NoOpUnsubscribe
       \<and> callUnsubscribe (unsubscribe (onFavoritesChange svc folderId b)) b' = b'
       \<and> store (onFavoritesChange svc folderId b) = b
       \<and> delivered (onFavoritesChange svc folderId b) = []
       \<and> toggleFavoriteInFirestore svc maxAttempts concurrent folderId file b =
           \<lparr>settled = Inr (), backend = b, requests = [], console = []\<rparr>
       \<and> toggleFavorite svc maxAttempts concurrent viewFolder allItems ident b =
           \<lparr>settled = Inr (), backend = b, requests = [], console = []\<rparr>"
  using assms
  by (simp add: onFavoritesChange_def callUnsubscribe_def toggle_unconfigured
        toggleFavorite_def split: option.splits)

theorem unconfigured_store_is_disabled_witness:
  "db (initFirebase [''YOUR_API_KEY'', ''YOUR_PROJECT_ID''] False) = None
   \<and> unsubscribe (onFavoritesChange (initFirebase [''YOUR_API_KEY'', ''YOUR_PROJECT_ID''] False)
        ''folder'' \<lparr>documents = Map.empty, listeners = []\<rparr>) = NoOpUnsubscribe
   \<and> toggleFavoriteInFirestore (initFirebase [''YOUR_API_KEY'', ''YOUR_PROJECT_ID''] False)
        5 [] ''folder'' \<lparr>file_id = ''a'', file_name = ''a.jpg'', thumbnailLink = ''t'', mimeType = ''image/jpeg''\<rparr> \<lparr>documents = Map.empty, listeners = []\<rparr> =
        \<lparr>settled = Inr (), backend = \<lparr>documents = Map.empty, listeners = []\<rparr>, requests = [], console = []\<rparr>"
proof -
  have cfg: "db (initFirebase [''YOUR_API_KEY'', ''YOUR_PROJECT_ID''] False) = None"
    by (simp add: initFirebase_def)
  show ?thesis
    using cfg unconfigured_store_is_disabled [OF cfg, of "''folder''" "\<lparr>documents = Map.empty, listeners = []\<rparr>" "\<lparr>documents = Map.empty, listeners = []\<rparr>" 5 "[]" "\<lparr>file_id = ''a'', file_name = ''a.jpg'', thumbnailLink = ''t'', mimeType = ''image/jpeg''\<rparr>"]
    by simp
qed

text \<open>
  Claim C10. For an id that no file of \<open>allItems\<close> carries, \<^verbatim>\<open>toggleFavorite\<close> of the hook
  resolves without touching the store; whenever the call does more than that, it is the
  toggle of a file of \<open>allItems\<close> with that id.
\<close>

theorem toggleFavorite_unlisted_id_noop:
  "(ident \<notin> file_id ` set allItems \<longrightarrow>
      toggleFavorite svc maxAttempts concurrent folderId allItems ident b =
        \<lparr>settled = Inr (), backend = b, requests = [], console = []\<rparr>)
   \<and> (toggleFavorite svc maxAttempts concurrent folderId allItems ident b \<noteq>
        \<lparr>settled = Inr (), backend = b, requests = [], console = []\<rparr> \<longrightarrow>
      (\<exists>fl fid. fl \<in> set allItems \<and> file_id fl = ident \<and> folderId = Some fid \<and>
         toggleFavorite svc maxAttempts concurrent folderId allItems ident b =
           toggleFavoriteInFirestore svc maxAttempts concurrent fid fl b))"
proof -
  have none: "find (\<lambda>f. file_id f = ident) allItems = None"
    if "ident \<notin> file_id ` set allItems"
    using that by (auto simp: find_None_iff)
  have some: "fl \<in> set allItems \<and> file_id fl = ident"
    if "find (\<lambda>f. file_id f = ident) allItems = Some fl" for fl
    using that by (auto simp: find_Some_iff)
  show ?thesis
    by (auto simp: toggleFavorite_def none dest: some split: option.splits)
qed

theorem toggleFavorite_unlisted_id_noop_witness:
  "toggleFavorite \<lparr>db = Some FirestoreHandle, isFirebaseConfigured = True\<rparr> 5 [] (Some ''folder'') [\<lparr>file_id = ''a'', file_name = ''a.jpg'', thumbnailLink = ''t'', mimeType = ''image/jpeg''\<rparr>] ''b'' \<lparr>documents = Map.empty, listeners = []\<rparr> =
     \<lparr>settled = Inr (), backend = \<lparr>documents = Map.empty, listeners = []\<rparr>, requests = [], console = []\<rparr>
   \<and> toggleFavorite \<lparr>db = Some FirestoreHandle, isFirebaseConfigured = True\<rparr> 5 [] (Some ''folder'') [\<lparr>file_id = ''a'', file_name = ''a.jpg'', thumbnailLink = ''t'', mimeType = ''image/jpeg''\<rparr>] ''a'' \<lparr>documents = Map.empty, listeners = []\<rparr> =
       toggleFavoriteInFirestore \<lparr>db = Some FirestoreHandle, isFirebaseConfigured = True\<rparr> 5 [] ''folder'' \<lparr>file_id = ''a'', file_name = ''a.jpg'', thumbnailLink = ''t'', mimeType = ''image/jpeg''\<rparr> \<lparr>documents = Map.empty, listeners = []\<rparr>"
  using toggleFavorite_unlisted_id_noop [of "''b''" "[\<lparr>file_id = ''a'', file_name = ''a.jpg'', thumbnailLink = ''t'', mimeType = ''image/jpeg''\<rparr>]" "\<lparr>db = Some FirestoreHandle, isFirebaseConfigured = True\<rparr>" 5 "[]" "Some ''folder''" "\<lparr>documents = Map.empty, listeners = []\<rparr>"]
  by (simp add: toggleFavorite_def)

section \<open>Properties of the media lister\<close>

lemma getFiles_loop_page:
  assumes "fetch (searchParams folderId key tok) = OkJson files next" and "truthy next"
  shows "getFiles_loop fetch folderId key acc tok sent =
         getFiles_loop fetch folderId key (acc @ pageFiles (files, next)) next
           (sent @ [searchParams folderId key tok])"
  using assms
  by (subst getFiles_loop.simps) (simp add: pageFiles_def split: option.splits)

lemma getFiles_loop_last:
  assumes "fetch (searchParams folderId key tok) = OkJson files next" and "\<not> truthy next"
  shows "getFiles_loop fetch folderId key acc tok sent =
         Some (Inr (acc @ pageFiles (files, next)), sent @ [searchParams folderId key tok])"
  using assms
  by (subst getFiles_loop.simps) (simp add: pageFiles_def split: option.splits)

lemma getFiles_loop_failure:
  assumes "failure (fetch (searchParams folderId key tok)) = Some e"
  shows "getFiles_loop fetch folderId key acc tok sent =
         Some (Inl e, sent @ [searchParams folderId key tok])"
  using assms
  by (subst getFiles_loop.simps) (auto simp: failure_def split: Response.splits)

lemma getFiles_loop_follows:
  "servesPages fetch folderId key tok pages \<Longrightarrow>
   getFiles_loop fetch folderId key acc tok sent =
   getFiles_loop fetch folderId key (acc @ concat (map pageFiles pages)) (tokenAfter tok pages)
     (sent @ map (searchParams folderId key) (butlast (requestTokens tok pages)))"
proof (induction pages arbitrary: tok acc sent)
  case Nil
  then show ?case by simp
next
  case (Cons page pages)
  obtain files nxt where page: "page = (files, nxt)" by (cases page)
  from Cons.prems page have
    resp: "fetch (searchParams folderId key tok) = OkJson files nxt" and
    more: "truthy nxt" and
    rest: "servesPages fetch folderId key nxt pages"
    by simp_all
  have nonempty: "requestTokens nxt pages \<noteq> []"
    by (cases pages) auto
  have "getFiles_loop fetch folderId key acc tok sent =
        getFiles_loop fetch folderId key (acc @ pageFiles (files, nxt)) nxt
          (sent @ [searchParams folderId key tok])"
    using resp more by (rule getFiles_loop_page)
  also have "\<dots> =
        getFiles_loop fetch folderId key
          ((acc @ pageFiles (files, nxt)) @ concat (map pageFiles pages)) (tokenAfter nxt pages)
          ((sent @ [searchParams folderId key tok]) @
             map (searchParams folderId key) (butlast (requestTokens nxt pages)))"
    using rest by (rule Cons.IH)
  finally show ?case
    using nonempty by (simp add: page)
qed

lemma requestTokens_snoc:
  "requestTokens tok pages = butlast (requestTokens tok pages) @ [tokenAfter tok pages]"
  by (induction tok pages rule: requestTokens.induct) (auto split: list.splits)

lemma length_requestTokens: "length (requestTokens tok pages) = Suc (length pages)"
  by (induction tok pages rule: requestTokens.induct) auto

lemma requestTokens_tokens: "requestTokens tok pages = tok # map snd pages"
  by (induction tok pages rule: requestTokens.induct) auto

lemma servesPages_truthy: 
  "servesPages fetch folderId key tok pages \<Longrightarrow> \<forall>p \<in> set pages. truthy (snd p)"
  by (induction fetch folderId key tok pages rule: servesPages.induct) auto

lemma param_pageToken_searchParams:
  "param_pageToken (searchParams folderId key tok) = (if truthy tok then tok else None)"
  by (simp add: searchParams_def)

text \<open>
  Claim C4. Let the provider serve \<open>pages\<close> one after the other from the first request
  on, each with a continuation token, and let \<open>response\<close> be its answer to the request that
  follows them. With a configured key, \<^verbatim>\<open>getFiles\<close> returns (it does not loop forever), and:
  when that answer is a last page (no continuation token), the result is the concatenation
  of the files of all \<open>length pages + 1\<close> pages; when that answer is a failure, the result is
  the error alone, without the files already fetched. In both cases exactly
  \<open>length pages + 1\<close> requests were made, the first without a page token and each later one
  with the token of the response before it. A token counts as present when it is truthy
  (defined and not empty), as in \<^verbatim>\<open>while (pageToken)\<close>.
\<close>

theorem getFiles_all_pages_or_failure:
  assumes key: "API_KEY \<noteq> [] \<and> \<not> prefix ''YOUR_'' API_KEY"
    and serves: "servesPages fetch folderId API_KEY None pages"
    and final: "fetch (searchParams folderId API_KEY (tokenAfter None pages)) = response"
  shows "(\<forall>files next. response = OkJson files next \<and> \<not> truthy next \<longrightarrow>
            getFiles fetch API_KEY folderId =
              Some (Inr (concat (map pageFiles (pages @ [(files, next)]))),
                    map (searchParams folderId API_KEY) (requestTokens None pages)))
       \<and> (\<forall>e. failure response = Some e \<longrightarrow>
            getFiles fetch API_KEY folderId =
              Some (Inl e, map (searchParams folderId API_KEY) (requestTokens None pages)))
       \<and> length (map (searchParams folderId API_KEY) (requestTokens None pages)) = length pages + 1
       \<and> map param_pageToken (map (searchParams folderId API_KEY) (requestTokens None pages))
           = None # map snd pages"
proof -
  let ?reqs = "map (searchParams folderId API_KEY) (requestTokens None pages)"
  have start: "getFiles fetch API_KEY folderId =
      getFiles_loop fetch folderId API_KEY (concat (map pageFiles pages)) (tokenAfter None pages)
        (map (searchParams folderId API_KEY) (butlast (requestTokens None pages)))"
    using key getFiles_loop_follows [OF serves, of "[]" "[]"] by (simp add: getFiles_def)
  have reqs: "?reqs = map (searchParams folderId API_KEY) (butlast (requestTokens None pages)) @
      [searchParams folderId API_KEY (tokenAfter None pages)]"
    by (subst requestTokens_snoc) simp
  have ok: "getFiles fetch API_KEY folderId =
              Some (Inr (concat (map pageFiles (pages @ [(files, nxt)]))), ?reqs)"
    if "response = OkJson files nxt" "\<not> truthy nxt" for files nxt
    using that final by (simp add: start reqs getFiles_loop_last)
  have bad: "getFiles fetch API_KEY folderId = Some (Inl e, ?reqs)"
    if "failure response = Some e" for e
    using that final by (simp add: start reqs getFiles_loop_failure)
  have tokens: "map param_pageToken ?reqs = None # map snd pages"
    using servesPages_truthy [OF serves]
    by (simp add: requestTokens_tokens param_pageToken_searchParams truthy_def)
  show ?thesis
    using ok bad tokens by (simp add: length_requestTokens)
qed

theorem getFiles_all_pages_or_failure_witness:
  "getFiles
     (\<lambda>r. if param_pageToken r = None
          then OkJson (Some [\<lparr>file_id = ''a'', file_name = ''a.jpg'', thumbnailLink = ''t'', mimeType = ''image/jpeg''\<rparr>]) (Some ''t1'')
          else if param_pageToken r = Some ''t1''
          then OkJson (Some [\<lparr>file_id = ''b'', file_name = ''b.mp4'', thumbnailLink = ''u'', mimeType = ''video/mp4''\<rparr>]) None
          else Rejected)
     ''KEY'' ''folder''
   = Some (Inr [\<lparr>file_id = ''a'', file_name = ''a.jpg'', thumbnailLink = ''t'', mimeType = ''image/jpeg''\<rparr>,
                \<lparr>file_id = ''b'', file_name = ''b.mp4'', thumbnailLink = ''u'', mimeType = ''video/mp4''\<rparr>],
           [searchParams ''folder'' ''KEY'' None, searchParams ''folder'' ''KEY'' (Some ''t1'')])
   \<and> getFiles
     (\<lambda>r. if param_pageToken r = None
          then OkJson (Some [\<lparr>file_id = ''a'', file_name = ''a.jpg'', thumbnailLink = ''t'', mimeType = ''image/jpeg''\<rparr>]) (Some ''t1'')
          else NotOk ''Forbidden'' (ErrorJson (Some ''Rate limit exceeded'')))
     ''KEY'' ''folder''
   = Some (Inl (Error ''Rate limit exceeded''),
           [searchParams ''folder'' ''KEY'' None, searchParams ''folder'' ''KEY'' (Some ''t1'')])"
proof -
  have first: "getFiles
     (\<lambda>r. if param_pageToken r = None
          then OkJson (Some [\<lparr>file_id = ''a'', file_name = ''a.jpg'', thumbnailLink = ''t'', mimeType = ''image/jpeg''\<rparr>]) (Some ''t1'')
          else if param_pageToken r = Some ''t1''
          then OkJson (Some [\<lparr>file_id = ''b'', file_name = ''b.mp4'', thumbnailLink = ''u'', mimeType = ''video/mp4''\<rparr>]) None
          else Rejected)
     ''KEY'' ''folder''
   = Some (Inr [\<lparr>file_id = ''a'', file_name = ''a.jpg'', thumbnailLink = ''t'', mimeType = ''image/jpeg''\<rparr>,
                \<lparr>file_id = ''b'', file_name = ''b.mp4'', thumbnailLink = ''u'', mimeType = ''video/mp4''\<rparr>],
           [searchParams ''folder'' ''KEY'' None, searchParams ''folder'' ''KEY'' (Some ''t1'')])"
    using getFiles_all_pages_or_failure
      [of "''KEY''"
          "\<lambda>r. if param_pageToken r = None
          then OkJson (Some [\<lparr>file_id = ''a'', file_name = ''a.jpg'', thumbnailLink = ''t'', mimeType = ''image/jpeg''\<rparr>]) (Some ''t1'')
          else if param_pageToken r = Some ''t1''
          then OkJson (Some [\<lparr>file_id = ''b'', file_name = ''b.mp4'', thumbnailLink = ''u'', mimeType = ''video/mp4''\<rparr>]) None
          else Rejected"
          "''folder''"
          "[(Some [\<lparr>file_id = ''a'', file_name = ''a.jpg'', thumbnailLink = ''t'', mimeType = ''image/jpeg''\<rparr>], Some ''t1'')]"
          "OkJson (Some [\<lparr>file_id = ''b'', file_name = ''b.mp4'', thumbnailLink = ''u'', mimeType = ''video/mp4''\<rparr>]) None"]
    by (simp add: param_pageToken_searchParams truthy_def pageFiles_def)
  have second: "getFiles
     (\<lambda>r. if param_pageToken r = None
          then OkJson (Some [\<lparr>file_id = ''a'', file_name = ''a.jpg'', thumbnailLink = ''t'', mimeType = ''image/jpeg''\<rparr>]) (Some ''t1'')
          else NotOk ''Forbidden'' (ErrorJson (Some ''Rate limit exceeded'')))
     ''KEY'' ''folder''
   = Some (Inl (Error ''Rate limit exceeded''),
           [searchParams ''folder'' ''KEY'' None, searchParams ''folder'' ''KEY'' (Some ''t1'')])"
    using getFiles_all_pages_or_failure
      [of "''KEY''"
          "\<lambda>r. if param_pageToken r = None
          then OkJson (Some [\<lparr>file_id = ''a'', file_name = ''a.jpg'', thumbnailLink = ''t'', mimeType = ''image/jpeg''\<rparr>]) (Some ''t1'')
          else NotOk ''Forbidden'' (ErrorJson (Some ''Rate limit exceeded''))"
          "''folder''"
          "[(Some [\<lparr>file_id = ''a'', file_name = ''a.jpg'', thumbnailLink = ''t'', mimeType = ''image/jpeg''\<rparr>], Some ''t1'')]"
          "NotOk ''Forbidden'' (ErrorJson (Some ''Rate limit exceeded''))"]
    by (simp add: param_pageToken_searchParams truthy_def failure_def errorMsg_def)
  from first second show ?thesis by (rule conjI)
qed


section \<open>Properties of gallery windowing\<close>

lemma isFavorited_iff: "isFavorited favs ident \<longleftrightarrow> ident \<in> fav_id ` set favs"
  unfolding isFavorited_def list_ex_iff by force

lemma filtered_length_distinct:
  assumes "distinct (map f xs)"
  shows "length (filter (\<lambda>x. f x \<in> S) xs) = card (f ` set xs \<inter> S)"
proof -
  have "map f (filter (\<lambda>x. f x \<in> S) xs) = filter (\<lambda>y. y \<in> S) (map f xs)"
    by (simp add: filter_map comp_def)
  moreover have "distinct (filter (\<lambda>y. y \<in> S) (map f xs))"
    using assms by simp
  ultimately have "length (filter (\<lambda>x. f x \<in> S) xs) = card (set (filter (\<lambda>y. y \<in> S) (map f xs)))"
    by (metis distinct_card length_map)
  also have "set (filter (\<lambda>y. y \<in> S) (map f xs)) = f ` set xs \<inter> S"
    by auto
  finally show ?thesis .
qed

text \<open>
  Claim C6, as stated, fails on its last part: for two listed files with the same id, both
  are kept by the favorites view (length 2) while the ids of \<open>allItems\<close> meet the favorited
  ids in one element. Nothing in \<^verbatim>\<open>getFiles\<close> or \<^verbatim>\<open>filteredItems\<close> removes repeated ids.
\<close>

theorem favoritesOnly_length_counts_repeated_ids:
  "length (filteredItems True [\<lparr>file_id = ''a'', file_name = ''a.jpg'', thumbnailLink = ''t'', mimeType = ''image/jpeg''\<rparr>, \<lparr>file_id = ''a'', file_name = ''copy.jpg'', thumbnailLink = ''u'', mimeType = ''image/jpeg''\<rparr>] [\<lparr>fav_id = ''a'', fav_name = ''a.jpg''\<rparr>]) = 2
   \<and> card (file_id ` set [\<lparr>file_id = ''a'', file_name = ''a.jpg'', thumbnailLink = ''t'', mimeType = ''image/jpeg''\<rparr>, \<lparr>file_id = ''a'', file_name = ''copy.jpg'', thumbnailLink = ''u'', mimeType = ''image/jpeg''\<rparr>] \<inter> fav_id ` set [\<lparr>fav_id = ''a'', fav_name = ''a.jpg''\<rparr>]) = 1"
  by (simp add: filteredItems_def isFavorited_def)

lemma filtered_length_positions:
  "length (filter (\<lambda>x. f x \<in> S) xs) = card {i. i < length xs \<and> f (xs ! i) \<in> S}"
  by (rule length_filter_conv_card)

lemma filtered_length_ge_card:
  "card (f ` set xs \<inter> S) \<le> length (filter (\<lambda>x. f x \<in> S) xs)"
proof -
  have "f ` set xs \<inter> S = f ` set (filter (\<lambda>x. f x \<in> S) xs)"
    by auto
  then have "card (f ` set xs \<inter> S) \<le> card (set (filter (\<lambda>x. f x \<in> S) xs))"
    by (simp add: card_image_le)
  also have "\<dots> \<le> length (filter (\<lambda>x. f x \<in> S) xs)"
    by (rule card_length)
  finally show ?thesis .
qed

text \<open>
  Claim C6, amended. In the favorites view, \<^verbatim>\<open>filteredItems\<close> is exactly the items of
  \<open>allItems\<close> whose id is a favorited id, in the order of \<open>allItems\<close> (a subsequence of it,
  whatever the order of the favorites). Its length is the number of positions of \<open>allItems\<close>
  that hold a favorited id; this is never less than the size of the intersection of the
  ids of \<open>allItems\<close> with the favorited ids, and equals it whenever the ids of \<open>allItems\<close>
  are pairwise distinct.
\<close>

theorem favoritesOnly_is_ordered_subsequence:
  "filteredItems True allItems favs =
     filter (\<lambda>item. file_id item \<in> fav_id ` set favs) allItems
   \<and> subseq (filteredItems True allItems favs) allItems
   \<and> set (filteredItems True allItems favs) =
       {item \<in> set allItems. file_id item \<in> fav_id ` set favs}
   \<and> length (filteredItems True allItems favs) =
       card {i. i < length allItems \<and> file_id (allItems ! i) \<in> fav_id ` set favs}
   \<and> card (file_id ` set allItems \<inter> fav_id ` set favs)
       \<le> length (filteredItems True allItems favs)
   \<and> (distinct (map file_id allItems) \<longrightarrow>
        length (filteredItems True allItems favs) =
          card (file_id ` set allItems \<inter> fav_id ` set favs))"
proof -
  have eq: "filteredItems True allItems favs =
     filter (\<lambda>item. file_id item \<in> fav_id ` set favs) allItems"
    by (simp add: filteredItems_def isFavorited_iff)
  have sub: "subseq (filter (\<lambda>item. file_id item \<in> fav_id ` set favs) allItems) allItems"
    by simp
  have members: "set (filter (\<lambda>item. file_id item \<in> fav_id ` set favs) allItems) =
       {item \<in> set allItems. file_id item \<in> fav_id ` set favs}"
    by auto
  show ?thesis
    unfolding eq
    using sub members
      filtered_length_positions [of file_id "fav_id ` set favs" allItems]
      filtered_length_ge_card [of file_id allItems "fav_id ` set favs"]
      filtered_length_distinct [of file_id allItems "fav_id ` set favs"]
    by (intro conjI impI) simp_all
qed

theorem favoritesOnly_is_ordered_subsequence_witness:
  "filteredItems True
     [\<lparr>file_id = ''a'', file_name = ''a.jpg'', thumbnailLink = ''t'', mimeType = ''image/jpeg''\<rparr>,
      \<lparr>file_id = ''b'', file_name = ''b.jpg'', thumbnailLink = ''t'', mimeType = ''image/jpeg''\<rparr>,
      \<lparr>file_id = ''c'', file_name = ''c.jpg'', thumbnailLink = ''t'', mimeType = ''image/jpeg''\<rparr>]
     [\<lparr>fav_id = ''c'', fav_name = ''c.jpg''\<rparr>, \<lparr>fav_id = ''a'', fav_name = ''a.jpg''\<rparr>]
   = [\<lparr>file_id = ''a'', file_name = ''a.jpg'', thumbnailLink = ''t'', mimeType = ''image/jpeg''\<rparr>,
      \<lparr>file_id = ''c'', file_name = ''c.jpg'', thumbnailLink = ''t'', mimeType = ''image/jpeg''\<rparr>]
   \<and> card (file_id ` set
     [\<lparr>file_id = ''a'', file_name = ''a.jpg'', thumbnailLink = ''t'', mimeType = ''image/jpeg''\<rparr>,
      \<lparr>file_id = ''b'', file_name = ''b.jpg'', thumbnailLink = ''t'', mimeType = ''image/jpeg''\<rparr>,
      \<lparr>file_id = ''c'', file_name = ''c.jpg'', thumbnailLink = ''t'', mimeType = ''image/jpeg''\<rparr>]
     \<inter> fav_id ` set [\<lparr>fav_id = ''c'', fav_name = ''c.jpg''\<rparr>, \<lparr>fav_id = ''a'', fav_name = ''a.jpg''\<rparr>])
     = 2"
  using favoritesOnly_is_ordered_subsequence
    [of "[\<lparr>file_id = ''a'', file_name = ''a.jpg'', thumbnailLink = ''t'', mimeType = ''image/jpeg''\<rparr>,
      \<lparr>file_id = ''b'', file_name = ''b.jpg'', thumbnailLink = ''t'', mimeType = ''image/jpeg''\<rparr>,
      \<lparr>file_id = ''c'', file_name = ''c.jpg'', thumbnailLink = ''t'', mimeType = ''image/jpeg''\<rparr>]"
     "[\<lparr>fav_id = ''c'', fav_name = ''c.jpg''\<rparr>, \<lparr>fav_id = ''a'', fav_name = ''a.jpg''\<rparr>]"]
  by simp

lemma totalPages_neg_div: "totalPages items = - (- int (length items) div 50)"
proof -
  have "totalPages items = \<lceil>real_of_int (int (length items)) / real_of_int 50\<rceil>"
    by (simp add: totalPages_def ITEMS_PER_PAGE_def)
  also have "\<dots> = - (- int (length items) div 50)"
    by (rule ceiling_divide_eq_div)
  finally show ?thesis .
qed


lemma slice_window:
  assumes "0 \<le> start" and "0 \<le> n"
  shows "slice xs start (start + n) = take (nat n) (drop (nat start) xs)"
proof (cases "start \<le> int (length xs)")
  case True
  then show ?thesis using assms
    by (auto simp: slice_def Let_def min_def take_all_iff intro!: arg_cong2 [where f = take])
next
  case False
  then show ?thesis using assms by (simp add: slice_def Let_def min_def)
qed

lemma visibleItems_window:
  assumes "1 \<le> p"
  shows "visibleItems p items = take 50 (drop (nat ((p - 1) * 50)) items)"
  using assms slice_window [of "(p - 1) * 50" 50 items]
  by (simp add: visibleItems_def ITEMS_PER_PAGE_def Let_def)

lemma take_drop_indices:
  "take n (drop k xs) = map (\<lambda>i. xs ! i) [k ..< min (k + n) (length xs)]"
proof (rule nth_equalityI)
  show "length (take n (drop k xs)) = length (map (\<lambda>i. xs ! i) [k ..< min (k + n) (length xs)])"
  proof -
    have "min (length xs - k) n = min (k + n) (length xs) - k" by arith
    then show ?thesis by simp
  qed
next
  fix i
  assume "i < length (take n (drop k xs))"
  then have "i < length xs - k" and "i < n" by simp_all
  then have "i < n" and "k + i < length xs" by arith+
  then show "take n (drop k xs) ! i = map (\<lambda>i. xs ! i) [k ..< min (k + n) (length xs)] ! i"
    by simp
qed

lemma visibleItems_indices:
  assumes "1 \<le> p"
  shows "visibleItems p items =
        map (\<lambda>i. items ! i)
          [nat ((p - 1) * ITEMS_PER_PAGE) ..< min (nat (p * ITEMS_PER_PAGE)) (length items)]"
proof -
  have "p * 50 = (p - 1) * 50 + 50" by (simp add: algebra_simps)
  then have "nat (p * 50) = nat ((p - 1) * 50) + 50"
    using assms by (simp add: nat_add_distrib)
  then show ?thesis
    using assms by (simp add: visibleItems_window take_drop_indices ITEMS_PER_PAGE_def)
qed

lemma totalPages_empty: "totalPages [] = 0"
  by (simp add: totalPages_neg_div)

lemma totalPages_nonempty:
  assumes "items \<noteq> []"
  shows "1 \<le> totalPages items"
proof -
  from assms have "- int (length items) < 0" by (cases items) simp_all
  then have "- int (length items) div 50 < 0"
    by (simp only: neg_imp_zdiv_neg_iff [of 50] zero_less_numeral)
  then show ?thesis unfolding totalPages_neg_div by linarith
qed

lemma pagination_example:
  assumes "length items = 120"
  shows "totalPages items = 3 \<and> length (visibleItems 3 items) = 20 \<and>
        clampCurrentPage 4 (totalPages items) = 3"
proof -
  have pages: "totalPages items = 3"
    unfolding totalPages_neg_div assms by simp
  have "visibleItems 3 items = take 50 (drop 100 items)"
    using visibleItems_window [of 3 items] by simp
  then have "length (visibleItems 3 items) = 20"
    by (simp add: assms)
  then show ?thesis by (simp add: pages clampCurrentPage_def)
qed


text \<open>
  Claim C7, as stated, fails when the filtered sequence is empty: the number of pages is 0,
  page 3 exceeds it, and the effect leaves the page at 3 (its guard asks for
  \<^verbatim>\<open>totalPages > 0\<close>).
\<close>

theorem pagination_unclamped_when_empty:
  "totalPages ([] :: DriveFile list) = 0
   \<and> 3 > totalPages ([] :: DriveFile list)
   \<and> clampCurrentPage 3 (totalPages ([] :: DriveFile list)) = 3"
  by (simp add: totalPages_neg_div clampCurrentPage_def)

text \<open>
  Claim C7, amended. Page \<open>p \<ge> 1\<close> shows exactly the items at the indices from
  \<open>(p - 1) * 50\<close> up to, not including, \<open>p * 50\<close> (cut at the end of the sequence);
  \<^verbatim>\<open>totalPages\<close> is the ceiling of the count over the page size, which is 0 for an empty
  sequence, and then the page index is left as it is; for a nonempty sequence there is at
  least one page and a page index above \<^verbatim>\<open>totalPages\<close> is set to \<^verbatim>\<open>totalPages\<close>, while one
  within it stays. For 120 items: 3 pages, 20 items on page 3, and page 4 becomes page 3.
\<close>

theorem pagination_window_and_clamp:
  "(1 \<le> p \<longrightarrow>
      visibleItems p items =
        map (\<lambda>i. items ! i)
          [nat ((p - 1) * ITEMS_PER_PAGE) ..< min (nat (p * ITEMS_PER_PAGE)) (length items)])
   \<and> totalPages items = \<lceil>real (length items) / real_of_int ITEMS_PER_PAGE\<rceil>
   \<and> (items = [] \<longrightarrow> totalPages items = 0 \<and> clampCurrentPage p (totalPages items) = p)
   \<and> (items \<noteq> [] \<longrightarrow> 1 \<le> totalPages items)
   \<and> (0 < totalPages items \<and> totalPages items < p \<longrightarrow>
        clampCurrentPage p (totalPages items) = totalPages items)
   \<and> (p \<le> totalPages items \<longrightarrow> clampCurrentPage p (totalPages items) = p)
   \<and> (length items = 120 \<longrightarrow>
        totalPages items = 3 \<and> length (visibleItems 3 items) = 20 \<and>
        clampCurrentPage 4 (totalPages items) = 3)"
proof (intro conjI impI)
  show "totalPages items = \<lceil>real (length items) / real_of_int ITEMS_PER_PAGE\<rceil>"
    by (rule totalPages_def)
next
  assume "1 \<le> p"
  then show "visibleItems p items =
        map (\<lambda>i. items ! i)
          [nat ((p - 1) * ITEMS_PER_PAGE) ..< min (nat (p * ITEMS_PER_PAGE)) (length items)]"
    by (rule visibleItems_indices)
next
  assume "items = []"
  then show "totalPages items = 0" by (simp add: totalPages_empty)
next
  assume "items = []"
  then show "clampCurrentPage p (totalPages items) = p"
    by (simp add: totalPages_empty clampCurrentPage_def)
next
  assume "items \<noteq> []"
  then show "1 \<le> totalPages items" by (rule totalPages_nonempty)
next
  assume "0 < totalPages items \<and> totalPages items < p"
  then show "clampCurrentPage p (totalPages items) = totalPages items"
    unfolding clampCurrentPage_def by (simp only: if_True simp_thms)
next
  assume "p \<le> totalPages items"
  then have "\<not> totalPages items < p" by (simp only: not_less)
  then show "clampCurrentPage p (totalPages items) = p"
    unfolding clampCurrentPage_def by (simp only: if_False simp_thms)
next
  assume l: "length items = 120"
  show "totalPages items = 3" using pagination_example [OF l] by (rule conjunct1)
  show "length (visibleItems 3 items) = 20"
    using pagination_example [OF l] by (elim conjE)
  show "clampCurrentPage 4 (totalPages items) = 3"
    using pagination_example [OF l] by (elim conjE)
qed

theorem pagination_window_and_clamp_witness:
  "totalPages (replicate 120 (0::nat)) = 3
   \<and> length (visibleItems 3 (replicate 120 (0::nat))) = 20
   \<and> clampCurrentPage 4 (totalPages (replicate 120 (0::nat))) = 3"
proof -
  have "length (replicate 120 (0::nat)) = 120" by simp
  with pagination_window_and_clamp [of 3 "replicate 120 (0::nat)"] show ?thesis by blast
qed

section \<open>Properties of the detail viewer\<close>

lemma toggle_keeps_index:
  "fst (detailStep items FavoriteButton i) = i"
  "fst (detailStep items (KeyDown '' '') i) = i"
  by (simp_all add: detailStep_def split: option.splits)

text \<open>
  Claim C8. For an index \<open>i\<close> within a sequence of \<open>N\<close> items: next from \<open>N - 1\<close> is 0, previous
  from 0 is \<open>N - 1\<close>, every other next or previous moves by one, the index stays within
  the sequence, the buttons and arrow keys do exactly this, and toggling the favorite
  (button or space key) leaves the index as it is, at any index \<open>j\<close>.
\<close>

theorem detail_viewer_wraps:
  assumes "0 \<le> i" and "i < int (length items)"
  shows "handleNext items (int (length items) - 1) = 0
       \<and> handlePrev items 0 = int (length items) - 1
       \<and> (i < int (length items) - 1 \<longrightarrow> handleNext items i = i + 1)
       \<and> (0 < i \<longrightarrow> handlePrev items i = i - 1)
       \<and> 0 \<le> handleNext items i \<and> handleNext items i < int (length items)
       \<and> 0 \<le> handlePrev items i \<and> handlePrev items i < int (length items)
       \<and> detailStep items NextButton i = (handleNext items i, [])
       \<and> detailStep items (KeyDown ''ArrowRight'') i = (handleNext items i, [])
       \<and> detailStep items PrevButton i = (handlePrev items i, [])
       \<and> detailStep items (KeyDown ''ArrowLeft'') i = (handlePrev items i, [])
       \<and> detailStep items FavoriteButton i = (i, [OnToggleFavorite (file_id (items ! nat i))])
       \<and> detailStep items (KeyDown '' '') i = (i, [OnToggleFavorite (file_id (items ! nat i))])
       \<and> fst (detailStep items FavoriteButton j) = j
       \<and> fst (detailStep items (KeyDown '' '') j) = j"
proof -
  have item: "itemAt items i = Some (items ! nat i)"
    using assms by (simp add: itemAt_def)
  have moves: "handleNext items (int (length items) - 1) = 0"
      "handlePrev items 0 = int (length items) - 1"
      "i < int (length items) - 1 \<longrightarrow> handleNext items i = i + 1"
      "0 < i \<longrightarrow> handlePrev items i = i - 1"
      "0 \<le> handleNext items i" "handleNext items i < int (length items)"
      "0 \<le> handlePrev items i" "handlePrev items i < int (length items)"
    using assms by (auto simp: handleNext_def handlePrev_def)
  have steps: "detailStep items NextButton i = (handleNext items i, [])"
      "detailStep items (KeyDown ''ArrowRight'') i = (handleNext items i, [])"
      "detailStep items PrevButton i = (handlePrev items i, [])"
      "detailStep items (KeyDown ''ArrowLeft'') i = (handlePrev items i, [])"
      "detailStep items FavoriteButton i = (i, [OnToggleFavorite (file_id (items ! nat i))])"
      "detailStep items (KeyDown '' '') i = (i, [OnToggleFavorite (file_id (items ! nat i))])"
    by (simp_all add: detailStep_def item)
  from moves steps toggle_keeps_index [of items j] show ?thesis by blast
qed


theorem detail_viewer_wraps_witness:
  "handleNext
     [\<lparr>file_id = ''a'', file_name = ''a.jpg'', thumbnailLink = ''t'', mimeType = ''image/jpeg''\<rparr>, \<lparr>file_id = ''b'', file_name = ''b.jpg'', thumbnailLink = ''t'', mimeType = ''image/jpeg''\<rparr>, \<lparr>file_id = ''c'', file_name = ''c.mp4'', thumbnailLink = ''t'', mimeType = ''video/mp4''\<rparr>] 2 = 0
   \<and> handlePrev
     [\<lparr>file_id = ''a'', file_name = ''a.jpg'', thumbnailLink = ''t'', mimeType = ''image/jpeg''\<rparr>, \<lparr>file_id = ''b'', file_name = ''b.jpg'', thumbnailLink = ''t'', mimeType = ''image/jpeg''\<rparr>, \<lparr>file_id = ''c'', file_name = ''c.mp4'', thumbnailLink = ''t'', mimeType = ''video/mp4''\<rparr>] 0 = 2
   \<and> handleNext
     [\<lparr>file_id = ''a'', file_name = ''a.jpg'', thumbnailLink = ''t'', mimeType = ''image/jpeg''\<rparr>, \<lparr>file_id = ''b'', file_name = ''b.jpg'', thumbnailLink = ''t'', mimeType = ''image/jpeg''\<rparr>, \<lparr>file_id = ''c'', file_name = ''c.mp4'', thumbnailLink = ''t'', mimeType = ''video/mp4''\<rparr>] 1 = 2
   \<and> handlePrev
     [\<lparr>file_id = ''a'', file_name = ''a.jpg'', thumbnailLink = ''t'', mimeType = ''image/jpeg''\<rparr>, \<lparr>file_id = ''b'', file_name = ''b.jpg'', thumbnailLink = ''t'', mimeType = ''image/jpeg''\<rparr>, \<lparr>file_id = ''c'', file_name = ''c.mp4'', thumbnailLink = ''t'', mimeType = ''video/mp4''\<rparr>] 1 = 0
   \<and> detailStep
     [\<lparr>file_id = ''a'', file_name = ''a.jpg'', thumbnailLink = ''t'', mimeType = ''image/jpeg''\<rparr>, \<lparr>file_id = ''b'', file_name = ''b.jpg'', thumbnailLink = ''t'', mimeType = ''image/jpeg''\<rparr>, \<lparr>file_id = ''c'', file_name = ''c.mp4'', thumbnailLink = ''t'', mimeType = ''video/mp4''\<rparr>] FavoriteButton 1 = (1, [OnToggleFavorite ''b''])"
  using detail_viewer_wraps [of 1
     "[\<lparr>file_id = ''a'', file_name = ''a.jpg'', thumbnailLink = ''t'', mimeType = ''image/jpeg''\<rparr>, \<lparr>file_id = ''b'', file_name = ''b.jpg'', thumbnailLink = ''t'', mimeType = ''image/jpeg''\<rparr>, \<lparr>file_id = ''c'', file_name = ''c.mp4'', thumbnailLink = ''t'', mimeType = ''video/mp4''\<rparr>]"]
  by simp

end
